theory Spec2Isabelle
  imports Main "HOL-Library.Word" "HOL-Library.Signed_Division"
begin

unbundle bit_operations_syntax

text \<open>
  The memory bus (bus.cpp) and the hardware timers (timers.cpp) of the emulator, as
  functions on explicit states: the access-time calculator, the MEMCTRL registers, the
  handlers of the regions, the invalid access and the read and write entry points of the
  bus; the three counters with
  \<open>AddTicks\<close>, \<open>Execute\<close>, the interrupt request and the register ports of the timers.
  Calls into the log are left out. The headers of both files are not part of the sources
  at hand; what is taken from them is said where it is used.
\<close>

section \<open>Machine types\<close>

type_synonym u8 = "8 word"
type_synonym u16 = "16 word"
type_synonym u32 = "32 word"

text \<open>
  \<open>TickCount\<close> is declared in a header that is not among the source files. bus.cpp fills
  it from \<open>s32\<close> values and timers.cpp casts it to and from \<open>u32\<close>; it is taken as the
  signed 32-bit integer. It is modelled as \<open>int\<close>: signed overflow is undefined in C++,
  so the model is the source wherever the source is defined. Division and remainder on it
  truncate towards zero (\<open>sdiv\<close>, \<open>smod\<close>); \<open>static_cast<u32>\<close> is \<open>word_of_int\<close> and
  \<open>static_cast<TickCount>\<close> of a \<open>u32\<close> is \<open>sint\<close>.
\<close>

type_synonym TickCount = int

definition TickCount_max :: TickCount where
  "TickCount_max = 2147483647"

section \<open>Bus: memory timing calculator (bus.cpp)\<close>

text \<open>
  Modelled from the spec: \<open>MEMDELAY\<close> and \<open>COMDELAY\<close> are bit-field unions declared in
  bus.h, which is not among the source files. They are records of the fields that section 3 names
  and bus.cpp reads, with the widths given there: \<open>access_time\<close> and \<open>com0\<close> .. \<open>com3\<close> are
  4-bit fields, the others are single bits.
\<close>

record MEMDELAY =
  access_time :: "4 word"
  use_com0_time :: bool
  use_com1_time :: bool
  use_com2_time :: bool
  use_com3_time :: bool
  data_bus_16bit :: bool

record COMDELAY =
  com0 :: "4 word"
  com1 :: "4 word"
  com2 :: "4 word"
  com3 :: "4 word"

text \<open>The cast \<open>s32(field)\<close> of an unsigned bit field.\<close>

definition s32 :: "4 word \<Rightarrow> int" where
  "s32 w = uint w"

text \<open>
  \<open>Bus::CalculateMemoryTiming\<close>, statement by statement. The three locals are \<open>s32\<close>; all
  values stay between \<open>-1\<close> and a few hundred, so \<open>int\<close> arithmetic is the source's.
\<close>

definition CalculateMemoryTiming :: "MEMDELAY \<Rightarrow> COMDELAY \<Rightarrow> TickCount \<times> TickCount \<times> TickCount" where
  "CalculateMemoryTiming mem_delay common_delay =
    (let first = 0; seq = 0; min = 0;
         (first, seq) = (if use_com0_time mem_delay
                         then (first + (s32 (com0 common_delay) - 1), seq + (s32 (com0 common_delay) - 1))
                         else (first, seq));
         (first, seq) = (if use_com2_time mem_delay
                         then (first + s32 (com2 common_delay), seq + s32 (com2 common_delay))
                         else (first, seq));
         min = (if use_com3_time mem_delay then s32 (com3 common_delay) else min);
         first = (if first < 6 then first + 1 else first);
         first = first + s32 (access_time mem_delay) + 2;
         seq = seq + s32 (access_time mem_delay) + 2;
         first = (if first < min + 6 then min + 6 else first);
         seq = (if seq < min + 2 then min + 2 else seq);
         byte_access_time = first;
         halfword_access_time = (if data_bus_16bit mem_delay then first else first + seq);
         word_access_time = (if data_bus_16bit mem_delay then first + seq else first + seq + seq + seq)
     in (byte_access_time, halfword_access_time, word_access_time))"

text \<open>
  The recipe of the specification (section 4.4), written after its words: \<open>first\<close>,
  \<open>seq\<close> and \<open>min\<close> start at 0; the conditional additions; the two clamps as \<open>max\<close>; then
  the three widths, the word access on an 8-bit bus as \<open>first + 3 * seq\<close>.
\<close>

definition spec_memory_timing :: "MEMDELAY \<Rightarrow> COMDELAY \<Rightarrow> int \<times> int \<times> int" where
  "spec_memory_timing md cd =
    (let first = 0; seq = 0; mn = 0;
         first = first + (if use_com0_time md then uint (com0 cd) - 1 else 0);
         seq = seq + (if use_com0_time md then uint (com0 cd) - 1 else 0);
         first = first + (if use_com2_time md then uint (com2 cd) else 0);
         seq = seq + (if use_com2_time md then uint (com2 cd) else 0);
         mn = (if use_com3_time md then uint (com3 cd) else mn);
         first = (if first < 6 then first + 1 else first);
         first = first + (uint (access_time md) + 2);
         seq = seq + (uint (access_time md) + 2);
         first = max first (mn + 6);
         seq = max seq (mn + 2)
     in (first,
         if data_bus_16bit md then first else first + seq,
         if data_bus_16bit md then first + seq else first + 3 * seq))"

section \<open>Timers: data (timers.cpp)\<close>

text \<open>
  Modelled from the spec: timers.h is not among the source files. The mode register is the bit-packed
  word of section 3, fields in the order listed there from bit 0: \<open>sync_enable\<close> (bit 0),
  \<open>sync_mode\<close> (bits 1-2), \<open>reset_at_target\<close> (3), \<open>irq_at_target\<close> (4),
  \<open>irq_on_overflow\<close> (5), \<open>irq_repeat\<close> (6), \<open>irq_pulse_n\<close> (7), \<open>clock_source\<close>
  (bits 8-9), \<open>interrupt_request_n\<close> (10), \<open>reached_target\<close> (11), \<open>reached_overflow\<close>
  (12): the thirteen bits that the write mask \<open>0x1FFF\<close> of \<open>WriteRegister\<close> keeps.
  The sync modes are numbered as in the table of section 4.6.1.
\<close>

datatype SyncMode = PauseOnGate | ResetOnGate | ResetAndRunOnGate | FreeRunOnGate

definition sync_enable :: "u32 \<Rightarrow> bool" where
  "sync_enable m = bit m 0"

definition sync_mode :: "u32 \<Rightarrow> SyncMode" where
  "sync_mode m =
    (if \<not> bit m 2 \<and> \<not> bit m 1 then PauseOnGate
     else if \<not> bit m 2 \<and> bit m 1 then ResetOnGate
     else if bit m 2 \<and> \<not> bit m 1 then ResetAndRunOnGate
     else FreeRunOnGate)"

definition reset_at_target :: "u32 \<Rightarrow> bool" where
  "reset_at_target m = bit m 3"

definition irq_at_target :: "u32 \<Rightarrow> bool" where
  "irq_at_target m = bit m 4"

definition irq_on_overflow :: "u32 \<Rightarrow> bool" where
  "irq_on_overflow m = bit m 5"

definition irq_repeat :: "u32 \<Rightarrow> bool" where
  "irq_repeat m = bit m 6"

definition irq_pulse_n :: "u32 \<Rightarrow> bool" where
  "irq_pulse_n m = bit m 7"

definition clock_source :: "u32 \<Rightarrow> u32" where
  "clock_source m = drop_bit 8 m AND 3"

definition interrupt_request_n :: "u32 \<Rightarrow> bool" where
  "interrupt_request_n m = bit m 10"

definition reached_target :: "u32 \<Rightarrow> bool" where
  "reached_target m = bit m 11"

definition reached_overflow :: "u32 \<Rightarrow> bool" where
  "reached_overflow m = bit m 12"

text \<open>Assignment of a \<open>bool\<close> to a one-bit field of the mode word.\<close>

definition assign_bit :: "nat \<Rightarrow> bool \<Rightarrow> u32 \<Rightarrow> u32" where
  "assign_bit n b m = (if b then set_bit n m else unset_bit n m)"

definition set_sync_enable :: "bool \<Rightarrow> u32 \<Rightarrow> u32" where
  "set_sync_enable = assign_bit 0"

definition set_interrupt_request_n :: "bool \<Rightarrow> u32 \<Rightarrow> u32" where
  "set_interrupt_request_n = assign_bit 10"

definition set_reached_target :: "bool \<Rightarrow> u32 \<Rightarrow> u32" where
  "set_reached_target = assign_bit 11"

definition set_reached_overflow :: "bool \<Rightarrow> u32 \<Rightarrow> u32" where
  "set_reached_overflow = assign_bit 12"

text \<open>
  \<open>CounterState\<close>, with the fields that timers.cpp uses; \<open>mode\<close> is \<open>mode.bits\<close>. The
  struct is declared in timers.h. Section 3 of the specification gives counter, target
  and mode as 16-bit values; they are held in \<open>u32\<close> words here, as timers.cpp treats
  them: it reads them into \<open>u32\<close> locals, masks what it stores in them with \<open>u32(0xFFFF)\<close>
  and \<open>u32(0x1FFF)\<close>, adds \<open>static_cast<u32>(count)\<close> to the counter, and only then tests
  \<open>counter >= 0xFFFF\<close> and reduces the counter modulo the target or \<open>0xFFFF\<close>. The stored
  values stay within 16 bits (lemma \<open>AddTicks_counter_le\<close>).
\<close>

record CounterState =
  mode :: u32
  counter :: u32
  target :: u32
  gate :: bool
  use_external_clock :: bool
  external_counting_enabled :: bool
  counting_enabled :: bool
  irq_done :: bool

definition NUM_TIMERS :: nat where
  "NUM_TIMERS = 3"

text \<open>
  The state of \<open>Timers\<close>. The array \<open>m_states\<close> is a map from the index; only the
  indexes below \<open>NUM_TIMERS\<close> are inside the array. The two collaborators are modelled by
  what the timers send them: \<open>irq_requests\<close> lists the timer indexes \<open>i\<close> of the calls
  \<open>InterruptRequest(TMR0 + i)\<close> in the order made, and \<open>downcount\<close> is the last value
  given to \<open>SetDowncount\<close>. The carry, declared in timers.h, is kept as a \<open>TickCount\<close>;
  the theorems about it are for tick counts and carries that are not negative, where
  signed and unsigned division agree.
\<close>

record Timers =
  m_states :: "nat \<Rightarrow> CounterState"
  m_sysclk_div_8_carry :: TickCount
  irq_requests :: "nat list"
  downcount :: TickCount

definition modify_state :: "nat \<Rightarrow> (CounterState \<Rightarrow> CounterState) \<Rightarrow> Timers \<Rightarrow> Timers" where
  "modify_state i f s = s\<lparr>m_states := (m_states s)(i := f (m_states s i))\<rparr>"

section \<open>Timers: operations\<close>

definition Reset_state :: "CounterState \<Rightarrow> CounterState" where
  "Reset_state cs =
    cs\<lparr>mode := 0, counter := 0, target := 0, gate := False,
       external_counting_enabled := False, counting_enabled := True, irq_done := False\<rparr>"

definition Reset :: "Timers \<Rightarrow> Timers" where
  "Reset s =
    s\<lparr>m_states := (\<lambda>i. if i < NUM_TIMERS then Reset_state (m_states s i) else m_states s i),
      m_sysclk_div_8_carry := 0\<rparr>"

definition UpdateCountingEnabled :: "CounterState \<Rightarrow> CounterState" where
  "UpdateCountingEnabled cs =
    (let cs = (if sync_enable (mode cs)
               then (case sync_mode (mode cs) of
                       PauseOnGate \<Rightarrow> cs\<lparr>counting_enabled := \<not> gate cs\<rparr>
                     | FreeRunOnGate \<Rightarrow> cs\<lparr>counting_enabled := \<not> gate cs\<rparr>
                     | ResetOnGate \<Rightarrow> cs\<lparr>counting_enabled := True\<rparr>
                     | ResetAndRunOnGate \<Rightarrow> cs\<lparr>counting_enabled := gate cs\<rparr>)
               else cs\<lparr>counting_enabled := True\<rparr>)
     in cs\<lparr>external_counting_enabled := use_external_clock cs \<and> counting_enabled cs\<rparr>)"

definition SetGate :: "nat \<Rightarrow> bool \<Rightarrow> Timers \<Rightarrow> Timers" where
  "SetGate timer state s =
    (let cs = m_states s timer in
     if gate cs = state then s
     else
       let cs = cs\<lparr>gate := state\<rparr>;
           cs = (if sync_enable (mode cs)
                 then
                   let cs = (if state
                             then (case sync_mode (mode cs) of
                                     ResetOnGate \<Rightarrow> cs\<lparr>counter := 0\<rparr>
                                   | ResetAndRunOnGate \<Rightarrow> cs\<lparr>counter := 0\<rparr>
                                   | FreeRunOnGate \<Rightarrow> cs\<lparr>mode := set_sync_enable False (mode cs)\<rparr>
                                   | PauseOnGate \<Rightarrow> cs)
                             else cs)
                   in UpdateCountingEnabled cs
                 else cs)
       in s\<lparr>m_states := (m_states s)(timer := cs)\<rparr>)"

definition UpdateIRQ :: "nat \<Rightarrow> Timers \<Rightarrow> Timers" where
  "UpdateIRQ index s =
    (let cs = m_states s index in
     if interrupt_request_n (mode cs) \<or> (\<not> irq_repeat (mode cs) \<and> irq_done cs) then s
     else s\<lparr>m_states := (m_states s)(index := cs\<lparr>irq_done := True\<rparr>),
            irq_requests := irq_requests s @ [index]\<rparr>)"

text \<open>
  \<open>Timers::AddTicks\<close>, in the three blocks of its body. \<open>cs\<close> is a reference into
  \<open>m_states\<close>, and \<open>UpdateIRQ\<close> writes \<open>irq_done\<close> of the same element, so the element is
  stored before the second block and taken again after it.

  Lines 85-98: the counter is advanced and the two conditions are tested on it; the result
  is the local \<open>interrupt_request\<close> and the element.
\<close>

definition AddTicks_advance :: "TickCount \<Rightarrow> CounterState \<Rightarrow> bool \<times> CounterState" where
  "AddTicks_advance count cs =
    (let old_counter = counter cs;
         cs = cs\<lparr>counter := counter cs + word_of_int count\<rparr>;
         interrupt_request = False;
         at_target = (target cs \<le> counter cs \<and> old_counter < target cs);
         interrupt_request = (if at_target then True else interrupt_request);
         cs = (if at_target then cs\<lparr>mode := set_reached_target True (mode cs)\<rparr> else cs);
         at_overflow = (0xFFFF \<le> counter cs);
         interrupt_request = (if at_overflow then True else interrupt_request);
         cs = (if at_overflow then cs\<lparr>mode := set_reached_overflow True (mode cs)\<rparr> else cs)
     in (interrupt_request, cs))"

text \<open>Lines 102-113: the body of \<open>if (interrupt_request)\<close>.\<close>

definition AddTicks_request :: "nat \<Rightarrow> Timers \<Rightarrow> Timers" where
  "AddTicks_request timer s =
    (if \<not> irq_pulse_n (mode (m_states s timer))
     then
       let s = modify_state timer (\<lambda>c. c\<lparr>mode := set_interrupt_request_n False (mode c)\<rparr>) s;
           s = UpdateIRQ timer s
       in modify_state timer (\<lambda>c. c\<lparr>mode := set_interrupt_request_n True (mode c)\<rparr>) s
     else
       let s = modify_state timer
                 (\<lambda>c. c\<lparr>mode := set_interrupt_request_n (\<not> interrupt_request_n (mode c)) (mode c)\<rparr>) s
       in UpdateIRQ timer s)"

text \<open>Lines 116-126: the counter is reduced.\<close>

definition AddTicks_wrap :: "CounterState \<Rightarrow> CounterState" where
  "AddTicks_wrap cs =
    (if reset_at_target (mode cs)
     then (if 0 < target cs then cs\<lparr>counter := counter cs mod target cs\<rparr>
           else cs\<lparr>counter := 0\<rparr>)
     else cs\<lparr>counter := counter cs mod 0xFFFF\<rparr>)"

definition AddTicks :: "nat \<Rightarrow> TickCount \<Rightarrow> Timers \<Rightarrow> Timers" where
  "AddTicks timer count s =
    (let r = AddTicks_advance count (m_states s timer);
         interrupt_request = fst r;
         s = s\<lparr>m_states := (m_states s)(timer := snd r)\<rparr>;
         s = (if interrupt_request then AddTicks_request timer s else s)
     in modify_state timer AddTicks_wrap s)"

text \<open>One iteration of the loop of \<open>UpdateDowncount\<close>, for timer \<open>i\<close>.\<close>

definition UpdateDowncount_step :: "Timers \<Rightarrow> TickCount \<Rightarrow> nat \<Rightarrow> TickCount" where
  "UpdateDowncount_step s min_ticks i =
    (let cs = m_states s i in
     if \<not> counting_enabled cs \<or> (i < 2 \<and> external_counting_enabled cs) then min_ticks
     else
       let min_ticks_for_this_timer = min_ticks;
           min_ticks_for_this_timer =
             (if irq_at_target (mode cs) \<and> counter cs < target cs
              then sint (target cs - counter cs) else min_ticks_for_this_timer);
           min_ticks_for_this_timer =
             (if irq_on_overflow (mode cs) \<and> counter cs < target cs
              then min min_ticks_for_this_timer (sint (0xFFFF - counter cs))
              else min_ticks_for_this_timer);
           min_ticks_for_this_timer =
             (if external_counting_enabled cs
              then max 1 (min_ticks_for_this_timer sdiv 8) else min_ticks_for_this_timer)
       in min min_ticks min_ticks_for_this_timer)"

definition UpdateDowncount :: "Timers \<Rightarrow> Timers" where
  "UpdateDowncount s = s\<lparr>downcount := foldl (UpdateDowncount_step s) TickCount_max [0..<NUM_TIMERS]\<rparr>"

definition Execute :: "TickCount \<Rightarrow> Timers \<Rightarrow> Timers" where
  "Execute sysclk_ticks s =
    (let s = (if \<not> external_counting_enabled (m_states s 0) \<and> counting_enabled (m_states s 0)
              then AddTicks 0 sysclk_ticks s else s);
         s = (if \<not> external_counting_enabled (m_states s 1) \<and> counting_enabled (m_states s 1)
              then AddTicks 1 sysclk_ticks s else s);
         s = (if external_counting_enabled (m_states s 2)
              then
                let sysclk_div_8_ticks = (sysclk_ticks + m_sysclk_div_8_carry s) sdiv 8;
                    s = s\<lparr>m_sysclk_div_8_carry := (sysclk_ticks + m_sysclk_div_8_carry s) smod 8\<rparr>
                in AddTicks 2 sysclk_div_8_ticks s
              else if counting_enabled (m_states s 2)
              then AddTicks 2 (if external_counting_enabled (m_states s 2)
                               then sysclk_ticks sdiv 8 else sysclk_ticks) s
              else s)
     in UpdateDowncount s)"

text \<open>
  The register ports. \<open>m_system->Synchronize()\<close> calls back into the CPU driver, which is
  not among the source files and may run \<open>Execute\<close> for the pending ticks: it is the parameter
  \<open>Synchronize\<close>, any function on the timers' state. \<open>cs\<close> is a reference, so what is read
  after the call is the synchronised element. The timer index is two bits of the offset;
  the value 3 is outside the array, and the TIMERS region of the bus, \<open>0x30\<close> bytes, does
  not reach it.
\<close>

definition timer_index_of :: "u32 \<Rightarrow> nat" where
  "timer_index_of offset = unat (drop_bit 4 offset AND 0x03)"

definition port_offset_of :: "u32 \<Rightarrow> u32" where
  "port_offset_of offset = offset AND 0x0F"

definition ReadRegister :: "(Timers \<Rightarrow> Timers) \<Rightarrow> u32 \<Rightarrow> Timers \<Rightarrow> u32 \<times> Timers" where
  "ReadRegister Synchronize offset s =
    (let timer_index = timer_index_of offset;
         port_offset = port_offset_of offset
     in
       if port_offset = 0x00 then
         (let s = Synchronize s in (counter (m_states s timer_index), s))
       else if port_offset = 0x04 then
         (let s = Synchronize s;
              bits = mode (m_states s timer_index);
              s = modify_state timer_index (\<lambda>c. c\<lparr>mode := set_reached_overflow False (mode c)\<rparr>) s;
              s = modify_state timer_index (\<lambda>c. c\<lparr>mode := set_reached_target False (mode c)\<rparr>) s
          in (bits, s))
       else if port_offset = 0x08 then (target (m_states s timer_index), s)
       else (0xFFFFFFFF, s))"

definition WriteRegister :: "(Timers \<Rightarrow> Timers) \<Rightarrow> u32 \<Rightarrow> u32 \<Rightarrow> Timers \<Rightarrow> Timers" where
  "WriteRegister Synchronize offset value s =
    (let timer_index = timer_index_of offset;
         port_offset = port_offset_of offset
     in
       if port_offset = 0x00 then
         (let s = Synchronize s
          in modify_state timer_index (\<lambda>c. c\<lparr>counter := value AND 0xFFFF\<rparr>) s)
       else if port_offset = 0x04 then
         (let s = Synchronize s;
              s = modify_state timer_index (\<lambda>c. c\<lparr>mode := value AND 0x1FFF\<rparr>) s;
              s = modify_state timer_index
                    (\<lambda>c. c\<lparr>use_external_clock :=
                             (clock_source (mode c) AND (if timer_index = 2 then 2 else 1)) \<noteq> 0\<rparr>) s;
              s = modify_state timer_index (\<lambda>c. c\<lparr>counter := 0\<rparr>) s;
              s = modify_state timer_index (\<lambda>c. c\<lparr>irq_done := False\<rparr>) s;
              s = (if irq_pulse_n (mode (m_states s timer_index))
                   then modify_state timer_index
                          (\<lambda>c. c\<lparr>mode := set_interrupt_request_n True (mode c)\<rparr>) s
                   else s);
              s = modify_state timer_index UpdateCountingEnabled s
          in UpdateIRQ timer_index s)
       else if port_offset = 0x08 then
         (let s = Synchronize s
          in modify_state timer_index (\<lambda>c. c\<lparr>target := value AND 0xFFFF\<rparr>) s)
       else s)"

section \<open>Bus: registers and access dispatch (bus.cpp)\<close>

datatype MemoryAccessType = Read | Write

datatype MemoryAccessSize = Byte | HalfWord | Word

definition ZeroExtend32_8 :: "u8 \<Rightarrow> u32" where
  "ZeroExtend32_8 v = ucast v"

definition ZeroExtend32_16 :: "u16 \<Rightarrow> u32" where
  "ZeroExtend32_16 v = ucast v"

definition Truncate8 :: "u32 \<Rightarrow> u8" where
  "Truncate8 v = ucast v"

definition Truncate16 :: "u32 \<Rightarrow> u16" where
  "Truncate16 v = ucast v"

text \<open>
  What bus.cpp takes from bus.h, which is not among the source files: the two write masks, and the
  layout of the \<open>MEMDELAY\<close> and \<open>COMDELAY\<close> bit fields inside a register word. They are
  parameters of the model.
\<close>

record BusDecls =
  MEMDELAY_WRITE_MASK :: u32
  COMDELAY_WRITE_MASK :: u32
  MEMDELAY_fields :: "u32 \<Rightarrow> MEMDELAY"
  COMDELAY_fields :: "u32 \<Rightarrow> COMDELAY"

text \<open>
  The members of \<open>Bus\<close> that bus.cpp reads and writes. Arrays are maps from the index;
  \<open>m_MEMCTRL\<close> is the register array \<open>m_MEMCTRL.regs\<close> of \<open>MEMCTRL_REG_COUNT\<close> words; the
  expansion ROM is a vector and the TTY line a string, both lists of bytes; an access-time
  table holds the ticks of a byte, a halfword and a word access. Output to the log is not
  part of the state.
\<close>

record Bus =
  m_exp1_access_time :: "TickCount \<times> TickCount \<times> TickCount"
  m_exp2_access_time :: "TickCount \<times> TickCount \<times> TickCount"
  m_bios_access_time :: "TickCount \<times> TickCount \<times> TickCount"
  m_cdrom_access_time :: "TickCount \<times> TickCount \<times> TickCount"
  m_spu_access_time :: "TickCount \<times> TickCount \<times> TickCount"
  m_ram :: "nat \<Rightarrow> u8"
  m_bios :: "nat \<Rightarrow> u8"
  m_exp1_rom :: "u8 list"
  m_MEMCTRL :: "nat \<Rightarrow> u32"
  m_ram_size_reg :: u32
  m_tty_line_buffer :: "u8 list"

definition MEMCTRL_REG_COUNT :: nat where
  "MEMCTRL_REG_COUNT = 9"

text \<open>
  Modelled from the spec: the union that overlays named members on \<open>m_MEMCTRL.regs\<close> is
  declared in bus.h, which is not among the source files. Section 3 lists the nine registers in
  order: \<open>exp1_base\<close>, \<open>exp2_base\<close>, \<open>exp1_delay_size\<close>, \<open>exp3_delay_size\<close>,
  \<open>bios_delay_size\<close>, \<open>spu_delay_size\<close>, \<open>cdrom_delay_size\<close>, \<open>exp2_delay_size\<close>,
  \<open>common_delay\<close>. These are the indexes of the four that bus.cpp reads by name.
\<close>

definition bios_delay_size_reg :: nat where
  "bios_delay_size_reg = 4"

definition spu_delay_size_reg :: nat where
  "spu_delay_size_reg = 5"

definition cdrom_delay_size_reg :: nat where
  "cdrom_delay_size_reg = 6"

definition common_delay_reg :: nat where
  "common_delay_reg = 8"

definition FixupUnalignedWordAccessW32 :: "u32 \<times> u32 \<Rightarrow> u32 \<times> u32" where
  "FixupUnalignedWordAccessW32 ov =
    (let offset = fst ov; value = snd ov;
         byte_offset = offset AND 3;
         offset = offset AND NOT 3;
         value = push_bit (unat (byte_offset * 8)) value
     in (offset, value))"

definition RecalculateMemoryTimings :: "BusDecls \<Rightarrow> Bus \<Rightarrow> Bus" where
  "RecalculateMemoryTimings decls bus =
    bus\<lparr>m_bios_access_time :=
          CalculateMemoryTiming (MEMDELAY_fields decls (m_MEMCTRL bus bios_delay_size_reg))
            (COMDELAY_fields decls (m_MEMCTRL bus common_delay_reg)),
        m_cdrom_access_time :=
          CalculateMemoryTiming (MEMDELAY_fields decls (m_MEMCTRL bus cdrom_delay_size_reg))
            (COMDELAY_fields decls (m_MEMCTRL bus common_delay_reg)),
        m_spu_access_time :=
          CalculateMemoryTiming (MEMDELAY_fields decls (m_MEMCTRL bus spu_delay_size_reg))
            (COMDELAY_fields decls (m_MEMCTRL bus common_delay_reg))\<rparr>"

text \<open>
  \<open>Bus::DoInvalidAccess\<close>: the message it builds goes to the log; what remains is the
  value, set on a read, and the tick count it returns.
\<close>

definition DoInvalidAccess :: "MemoryAccessType \<Rightarrow> MemoryAccessSize \<Rightarrow> u32 \<Rightarrow> u32 \<Rightarrow> TickCount \<times> u32" where
  "DoInvalidAccess type sz address value =
    (let value = (if type = Read then 0xFFFFFFFF else value)
     in (1, value))"

definition DoReadMemoryControl :: "MemoryAccessSize \<Rightarrow> u32 \<Rightarrow> Bus \<Rightarrow> u32" where
  "DoReadMemoryControl sz offset bus =
    (let value = m_MEMCTRL bus (unat (offset div 4));
         ov = FixupUnalignedWordAccessW32 (offset, value)
     in snd ov)"

definition DoWriteMemoryControl :: "BusDecls \<Rightarrow> MemoryAccessSize \<Rightarrow> u32 \<Rightarrow> u32 \<Rightarrow> Bus \<Rightarrow> Bus" where
  "DoWriteMemoryControl decls sz offset value bus =
    (let ov = FixupUnalignedWordAccessW32 (offset, value);
         offset = fst ov; value = snd ov;
         index = unat (offset div 4);
         write_mask = (if index = 8 then COMDELAY_WRITE_MASK decls else MEMDELAY_WRITE_MASK decls);
         new_value = (m_MEMCTRL bus index AND NOT write_mask) OR (value AND write_mask)
     in if m_MEMCTRL bus index \<noteq> new_value
        then RecalculateMemoryTimings decls (bus\<lparr>m_MEMCTRL := (m_MEMCTRL bus)(index := new_value)\<rparr>)
        else bus)"

text \<open>
  Modelled from the spec: \<open>MEMCTRL2_BASE\<close> is a constant of bus.h; its value is the base of
  the MEMCTRL2 region in section 3. bus.cpp uses it only in the address it logs.
\<close>

definition MEMCTRL2_BASE :: u32 where
  "MEMCTRL2_BASE = 0x1F801060"

definition DoReadMemoryControl2 :: "MemoryAccessSize \<Rightarrow> u32 \<Rightarrow> Bus \<Rightarrow> u32" where
  "DoReadMemoryControl2 sz offset bus =
    (if offset = 0x00 then m_ram_size_reg bus
     else
       let value = 0
       in snd (DoInvalidAccess Read sz (MEMCTRL2_BASE OR offset) value))"

definition DoWriteMemoryControl2 :: "MemoryAccessSize \<Rightarrow> u32 \<Rightarrow> u32 \<Rightarrow> Bus \<Rightarrow> Bus" where
  "DoWriteMemoryControl2 sz offset value bus =
    (if offset = 0x00 then bus\<lparr>m_ram_size_reg := value\<rparr>
     else
       let r = DoInvalidAccess Write sz (MEMCTRL2_BASE OR offset) value
       in bus)"

text \<open>
  The regions of the bus. The collaborators are the owners of the registers behind PAD,
  INTC, DMA, TIMERS, CDROM, GPU, MDEC and SPU; the bus calls their \<open>ReadRegister\<close> and
  \<open>WriteRegister\<close>. They are modelled by the calls made to them, in order, and by the
  parameter \<open>collab\<close>, which gives the word that \<open>ReadRegister\<close> of a region returns at an
  offset (its low 8 or 16 bits where the collaborator returns a byte or a halfword).
\<close>

datatype Region =
  RAM | EXP1 | SCRATCHPAD | MEMCTRL | PAD | SIO | MEMCTRL2 | INTC | DMA | TIMERS
  | CDROM | GPU | MDEC | SPU | EXP2 | BIOS

datatype Request = RegisterRead Region u32 | RegisterWrite Region u32 u32

text \<open>A failed \<open>Assert\<close> ends the run.\<close>

datatype error = AssertionFailed

definition transfer_size :: "MemoryAccessSize \<Rightarrow> nat" where
  "transfer_size sz = (case sz of Byte \<Rightarrow> 1 | HalfWord \<Rightarrow> 2 | Word \<Rightarrow> 4)"

text \<open>
  A little-endian load and store of \<open>n\<close> bytes, as \<open>std::memcpy\<close> between a \<open>u16\<close> or
  \<open>u32\<close> and a byte array does on the little-endian host.
\<close>

definition load_le :: "(nat \<Rightarrow> u8) \<Rightarrow> nat \<Rightarrow> nat \<Rightarrow> u32" where
  "load_le mem offset n =
    foldr (\<lambda>i acc. push_bit 8 acc OR ucast (mem (offset + i))) [0..<n] 0"

definition store_le :: "(nat \<Rightarrow> u8) \<Rightarrow> nat \<Rightarrow> nat \<Rightarrow> u32 \<Rightarrow> (nat \<Rightarrow> u8)" where
  "store_le mem offset n value =
    foldl (\<lambda>m i. m(offset + i := ucast (drop_bit (8 * i) value))) mem [0..<n]"

text \<open>
  The handlers of bus.cpp, lines 261-533. A read handler returns the value and the calls
  made to a collaborator; a write handler returns the calls, and the bus where it writes
  a member. A handler with an \<open>Assert\<close> can fail. \<open>DoReadEXP1\<close> adds offset and size as
  32-bit words before it compares with the size of the ROM; an offset so large that the
  sum wraps makes the C++ read past the vector, and the list access here is unspecified
  there. No address of the EXP1 region gives such an offset.
\<close>

definition DoReadEXP1 :: "MemoryAccessSize \<Rightarrow> u32 \<Rightarrow> Bus \<Rightarrow> u32" where
  "DoReadEXP1 sz offset bus =
    (if m_exp1_rom bus = [] then 0xFFFFFFFF
     else if offset = 0x20018 then 1
     else if length (m_exp1_rom bus) < unat (offset + word_of_nat (transfer_size sz)) then 0
     else load_le (\<lambda>i. m_exp1_rom bus ! i) (unat offset) (transfer_size sz))"

definition DoWriteEXP1 :: "MemoryAccessSize \<Rightarrow> u32 \<Rightarrow> u32 \<Rightarrow> Bus \<Rightarrow> Bus" where
  "DoWriteEXP1 sz offset value bus = bus"

definition DoReadEXP2 :: "MemoryAccessSize \<Rightarrow> u32 \<Rightarrow> u32" where
  "DoReadEXP2 sz offset = (if offset = 0x21 then 0x04 OR 0x08 else 0xFFFFFFFF)"

definition DoWriteEXP2 :: "MemoryAccessSize \<Rightarrow> u32 \<Rightarrow> u32 \<Rightarrow> Bus \<Rightarrow> Bus" where
  "DoWriteEXP2 sz offset value bus =
    (if offset = 0x23 then
       (if value = 13 then bus
        else if value = 10 then bus\<lparr>m_tty_line_buffer := []\<rparr>
        else bus\<lparr>m_tty_line_buffer := m_tty_line_buffer bus @ [Truncate8 value]\<rparr>)
     else if offset = 0x41 then bus
     else bus)"

definition DoReadPad ::
  "(Region \<Rightarrow> u32 \<Rightarrow> u32) \<Rightarrow> MemoryAccessSize \<Rightarrow> u32 \<Rightarrow> u32 \<times> Request list" where
  "DoReadPad collab sz offset = (collab PAD offset, [RegisterRead PAD offset])"

definition DoWritePad :: "MemoryAccessSize \<Rightarrow> u32 \<Rightarrow> u32 \<Rightarrow> Request list" where
  "DoWritePad sz offset value = [RegisterWrite PAD offset value]"

definition DoReadSIO :: "MemoryAccessSize \<Rightarrow> u32 \<Rightarrow> u32" where
  "DoReadSIO sz offset = (if offset = 0x04 then 0x5 else 0)"

definition DoWriteSIO :: "MemoryAccessSize \<Rightarrow> u32 \<Rightarrow> u32 \<Rightarrow> Request list" where
  "DoWriteSIO sz offset value = []"

definition DoReadCDROM ::
  "(Region \<Rightarrow> u32 \<Rightarrow> u32) \<Rightarrow> MemoryAccessSize \<Rightarrow> u32 \<Rightarrow> error + u32 \<times> Request list" where
  "DoReadCDROM collab sz offset =
    (if sz \<noteq> Byte then Inl AssertionFailed
     else Inr (ZeroExtend32_8 (Truncate8 (collab CDROM offset)), [RegisterRead CDROM offset]))"

definition DoWriteCDROM :: "MemoryAccessSize \<Rightarrow> u32 \<Rightarrow> u32 \<Rightarrow> error + Request list" where
  "DoWriteCDROM sz offset value =
    (if sz \<noteq> Byte then Inl AssertionFailed
     else Inr [RegisterWrite CDROM offset (ZeroExtend32_8 (Truncate8 value))])"

definition DoReadGPU ::
  "(Region \<Rightarrow> u32 \<Rightarrow> u32) \<Rightarrow> MemoryAccessSize \<Rightarrow> u32 \<Rightarrow> error + u32 \<times> Request list" where
  "DoReadGPU collab sz offset =
    (if sz \<noteq> Word then Inl AssertionFailed
     else Inr (collab GPU offset, [RegisterRead GPU offset]))"

definition DoWriteGPU :: "MemoryAccessSize \<Rightarrow> u32 \<Rightarrow> u32 \<Rightarrow> error + Request list" where
  "DoWriteGPU sz offset value =
    (if sz \<noteq> Word then Inl AssertionFailed
     else Inr [RegisterWrite GPU offset value])"

definition DoReadMDEC ::
  "(Region \<Rightarrow> u32 \<Rightarrow> u32) \<Rightarrow> MemoryAccessSize \<Rightarrow> u32 \<Rightarrow> error + u32 \<times> Request list" where
  "DoReadMDEC collab sz offset =
    (if sz \<noteq> Word then Inl AssertionFailed
     else Inr (collab MDEC offset, [RegisterRead MDEC offset]))"

definition DoWriteMDEC :: "MemoryAccessSize \<Rightarrow> u32 \<Rightarrow> u32 \<Rightarrow> error + Request list" where
  "DoWriteMDEC sz offset value =
    (if sz \<noteq> Word then Inl AssertionFailed
     else Inr [RegisterWrite MDEC offset value])"

definition DoReadInterruptController ::
  "(Region \<Rightarrow> u32 \<Rightarrow> u32) \<Rightarrow> MemoryAccessSize \<Rightarrow> u32 \<Rightarrow> u32 \<times> Request list" where
  "DoReadInterruptController collab sz offset =
    (let value = collab INTC offset;
         ov = FixupUnalignedWordAccessW32 (offset, value)
     in (snd ov, [RegisterRead INTC offset]))"

definition DoWriteInterruptController :: "MemoryAccessSize \<Rightarrow> u32 \<Rightarrow> u32 \<Rightarrow> Request list" where
  "DoWriteInterruptController sz offset value =
    (let ov = FixupUnalignedWordAccessW32 (offset, value)
     in [RegisterWrite INTC (fst ov) (snd ov)])"

definition DoReadTimers ::
  "(Region \<Rightarrow> u32 \<Rightarrow> u32) \<Rightarrow> MemoryAccessSize \<Rightarrow> u32 \<Rightarrow> u32 \<times> Request list" where
  "DoReadTimers collab sz offset =
    (let value = collab TIMERS offset;
         ov = FixupUnalignedWordAccessW32 (offset, value)
     in (snd ov, [RegisterRead TIMERS offset]))"

definition DoWriteTimers :: "MemoryAccessSize \<Rightarrow> u32 \<Rightarrow> u32 \<Rightarrow> Request list" where
  "DoWriteTimers sz offset value =
    (let ov = FixupUnalignedWordAccessW32 (offset, value)
     in [RegisterWrite TIMERS (fst ov) (snd ov)])"

text \<open>
  Modelled from the spec: \<open>Common::IsAlignedPow2\<close> is declared in a header that is not
  among the source files. It is taken as its name says: the value is a multiple of the
  alignment, a power of two.
\<close>

definition IsAlignedPow2 :: "u32 \<Rightarrow> u32 \<Rightarrow> bool" where
  "IsAlignedPow2 value alignment \<longleftrightarrow> value AND (alignment - 1) = 0"

definition DoReadSPU ::
  "(Region \<Rightarrow> u32 \<Rightarrow> u32) \<Rightarrow> MemoryAccessSize \<Rightarrow> u32 \<Rightarrow> u32 \<times> Request list" where
  "DoReadSPU collab sz offset =
    (if sz = Word then
       (let lsb = Truncate16 (collab SPU offset);
            msb = Truncate16 (collab SPU (offset + 2))
        in (ZeroExtend32_16 lsb OR push_bit 16 (ZeroExtend32_16 msb),
            [RegisterRead SPU offset, RegisterRead SPU (offset + 2)]))
     else (ZeroExtend32_16 (Truncate16 (collab SPU offset)), [RegisterRead SPU offset]))"

definition DoWriteSPU :: "MemoryAccessSize \<Rightarrow> u32 \<Rightarrow> u32 \<Rightarrow> error + Request list" where
  "DoWriteSPU sz offset value =
    (if sz = Word then
       (if \<not> IsAlignedPow2 offset 2 then Inl AssertionFailed
        else Inr [RegisterWrite SPU offset (ZeroExtend32_16 (Truncate16 value)),
                  RegisterWrite SPU (offset + 2) (ZeroExtend32_16 (Truncate16 (drop_bit 16 value)))])
     else if \<not> IsAlignedPow2 offset 2 then Inl AssertionFailed
     else Inr [RegisterWrite SPU offset (ZeroExtend32_16 (Truncate16 value))])"

definition DoReadDMA ::
  "(Region \<Rightarrow> u32 \<Rightarrow> u32) \<Rightarrow> MemoryAccessSize \<Rightarrow> u32 \<Rightarrow> u32 \<times> Request list" where
  "DoReadDMA collab sz offset =
    (drop_bit (unat ((offset AND 3) * 8)) (collab DMA (offset AND NOT 3)),
     [RegisterRead DMA (offset AND NOT 3)])"

definition DoWriteDMA :: "MemoryAccessSize \<Rightarrow> u32 \<Rightarrow> u32 \<Rightarrow> Request list" where
  "DoWriteDMA sz offset value =
    (let ov = (if sz = Byte \<or> sz = HalfWord
               then (if (offset AND 0xF0) < 7 \<and> (offset AND 0x0F) = 0x4
                     then (offset, value)
                     else FixupUnalignedWordAccessW32 (offset, value))
               else (offset, value))
     in [RegisterWrite DMA (fst ov) (snd ov)])"

text \<open>
  Modelled from the spec: \<open>DispatchAccess\<close> and the RAM and BIOS accesses it makes are
  templates of bus.inl, which is not among the source files. Sections 4.1 and 4.2 give
  what it does. The address is folded to 29 bits and classified with the bases and sizes
  of the table of section 3. RAM and BIOS are byte arrays, read and written
  little-endian at the decoded offset; BIOS is read-only. The other regions go to their
  handlers in bus.cpp; the scratchpad, which is no member of the bus, is forwarded like
  a collaborator's register. An address in no region is an invalid access, which goes to
  \<open>DoInvalidAccess\<close> and fails.

  The result of an access is the success flag, the tick count, the value (for a write,
  the value written), the bus after the access and the calls made to collaborators. The
  tick count is the cost of section 4.2: 4 for RAM, 1 for the scratchpad, the entry for
  the size in the access-time table for BIOS, CDROM and SPU, 2 for the I/O registers
  (INTC, TIMERS, DMA, GPU, MDEC, PAD, SIO, MEMCTRL and MEMCTRL2), and for an invalid access
  what \<open>DoInvalidAccess\<close> returns. Section 4.2 names no cost for EXP1 and EXP2; they are
  charged from the two tables that bus.cpp keeps for them.
\<close>

record Access =
  acc_result :: bool
  acc_ticks :: TickCount
  acc_value :: u32
  acc_bus :: Bus
  acc_requests :: "Request list"

definition in_region :: "u32 \<Rightarrow> u32 \<Rightarrow> u32 \<Rightarrow> bool" where
  "in_region base len pa \<longleftrightarrow> base \<le> pa \<and> pa < base + len"

definition decode_address :: "u32 \<Rightarrow> (Region \<times> u32) option" where
  "decode_address va =
    (let pa = va AND 0x1FFFFFFF in
     if pa < 0x00800000 then Some (RAM, pa AND 0x001FFFFF)
     else if in_region 0x1F000000 0x800000 pa then Some (EXP1, pa - 0x1F000000)
     else if in_region 0x1F800000 0x400 pa then Some (SCRATCHPAD, pa - 0x1F800000)
     else if in_region 0x1F801000 36 pa then Some (MEMCTRL, pa - 0x1F801000)
     else if in_region 0x1F801040 16 pa then Some (PAD, pa - 0x1F801040)
     else if in_region 0x1F801050 16 pa then Some (SIO, pa - 0x1F801050)
     else if in_region 0x1F801060 4 pa then Some (MEMCTRL2, pa - 0x1F801060)
     else if in_region 0x1F801070 8 pa then Some (INTC, pa - 0x1F801070)
     else if in_region 0x1F801080 128 pa then Some (DMA, pa - 0x1F801080)
     else if in_region 0x1F801100 48 pa then Some (TIMERS, pa - 0x1F801100)
     else if in_region 0x1F801800 4 pa then Some (CDROM, pa - 0x1F801800)
     else if in_region 0x1F801810 8 pa then Some (GPU, pa - 0x1F801810)
     else if in_region 0x1F801820 8 pa then Some (MDEC, pa - 0x1F801820)
     else if in_region 0x1F801C00 640 pa then Some (SPU, pa - 0x1F801C00)
     else if in_region 0x1F802000 0x2000 pa then Some (EXP2, pa - 0x1F802000)
     else if in_region 0x1FC00000 0x80000 pa then Some (BIOS, pa - 0x1FC00000)
     else None)"

definition table_entry :: "MemoryAccessSize \<Rightarrow> TickCount \<times> TickCount \<times> TickCount \<Rightarrow> TickCount" where
  "table_entry sz table =
    (case sz of Byte \<Rightarrow> fst table | HalfWord \<Rightarrow> fst (snd table) | Word \<Rightarrow> snd (snd table))"

definition region_ticks :: "Region \<Rightarrow> MemoryAccessSize \<Rightarrow> Bus \<Rightarrow> TickCount" where
  "region_ticks region sz bus =
    (case region of
       RAM \<Rightarrow> 4
     | SCRATCHPAD \<Rightarrow> 1
     | BIOS \<Rightarrow> table_entry sz (m_bios_access_time bus)
     | CDROM \<Rightarrow> table_entry sz (m_cdrom_access_time bus)
     | SPU \<Rightarrow> table_entry sz (m_spu_access_time bus)
     | EXP1 \<Rightarrow> table_entry sz (m_exp1_access_time bus)
     | EXP2 \<Rightarrow> table_entry sz (m_exp2_access_time bus)
     | INTC \<Rightarrow> 2 | TIMERS \<Rightarrow> 2 | DMA \<Rightarrow> 2 | GPU \<Rightarrow> 2 | MDEC \<Rightarrow> 2 | PAD \<Rightarrow> 2
     | SIO \<Rightarrow> 2 | MEMCTRL \<Rightarrow> 2 | MEMCTRL2 \<Rightarrow> 2)"

definition DoRAMAccess :: "MemoryAccessType \<Rightarrow> MemoryAccessSize \<Rightarrow> u32 \<Rightarrow> u32 \<Rightarrow> Bus \<Rightarrow> u32 \<times> Bus" where
  "DoRAMAccess type sz offset value bus =
    (case type of
       Read \<Rightarrow> (load_le (m_ram bus) (unat offset) (transfer_size sz), bus)
     | Write \<Rightarrow> (value, bus\<lparr>m_ram := store_le (m_ram bus) (unat offset) (transfer_size sz) value\<rparr>))"

definition DoBIOSAccess :: "MemoryAccessType \<Rightarrow> MemoryAccessSize \<Rightarrow> u32 \<Rightarrow> u32 \<Rightarrow> Bus \<Rightarrow> u32 \<times> Bus" where
  "DoBIOSAccess type sz offset value bus =
    (case type of
       Read \<Rightarrow> (load_le (m_bios bus) (unat offset) (transfer_size sz), bus)
     | Write \<Rightarrow> (value, bus))"

text \<open>The read of a region: the value and the calls to collaborators, or a failed assertion.\<close>

definition DispatchRead ::
  "(Region \<Rightarrow> u32 \<Rightarrow> u32) \<Rightarrow> Region \<Rightarrow> MemoryAccessSize \<Rightarrow> u32 \<Rightarrow> Bus \<Rightarrow>
   error + u32 \<times> Request list" where
  "DispatchRead collab region sz offset bus =
    (case region of
       RAM \<Rightarrow> Inr (fst (DoRAMAccess Read sz offset 0 bus), [])
     | BIOS \<Rightarrow> Inr (fst (DoBIOSAccess Read sz offset 0 bus), [])
     | SCRATCHPAD \<Rightarrow> Inr (collab SCRATCHPAD offset, [RegisterRead SCRATCHPAD offset])
     | EXP1 \<Rightarrow> Inr (DoReadEXP1 sz offset bus, [])
     | EXP2 \<Rightarrow> Inr (DoReadEXP2 sz offset, [])
     | MEMCTRL \<Rightarrow> Inr (DoReadMemoryControl sz offset bus, [])
     | MEMCTRL2 \<Rightarrow> Inr (DoReadMemoryControl2 sz offset bus, [])
     | PAD \<Rightarrow> Inr (DoReadPad collab sz offset)
     | SIO \<Rightarrow> Inr (DoReadSIO sz offset, [])
     | INTC \<Rightarrow> Inr (DoReadInterruptController collab sz offset)
     | DMA \<Rightarrow> Inr (DoReadDMA collab sz offset)
     | TIMERS \<Rightarrow> Inr (DoReadTimers collab sz offset)
     | CDROM \<Rightarrow> DoReadCDROM collab sz offset
     | GPU \<Rightarrow> DoReadGPU collab sz offset
     | MDEC \<Rightarrow> DoReadMDEC collab sz offset
     | SPU \<Rightarrow> Inr (DoReadSPU collab sz offset))"

text \<open>The write of a region: the bus after it and the calls to collaborators, or a failed assertion.\<close>

definition DispatchWrite ::
  "BusDecls \<Rightarrow> Region \<Rightarrow> MemoryAccessSize \<Rightarrow> u32 \<Rightarrow> u32 \<Rightarrow> Bus \<Rightarrow>
   error + Bus \<times> Request list" where
  "DispatchWrite decls region sz offset value bus =
    (case region of
       RAM \<Rightarrow> Inr (snd (DoRAMAccess Write sz offset value bus), [])
     | BIOS \<Rightarrow> Inr (snd (DoBIOSAccess Write sz offset value bus), [])
     | SCRATCHPAD \<Rightarrow> Inr (bus, [RegisterWrite SCRATCHPAD offset value])
     | EXP1 \<Rightarrow> Inr (DoWriteEXP1 sz offset value bus, [])
     | EXP2 \<Rightarrow> Inr (DoWriteEXP2 sz offset value bus, [])
     | MEMCTRL \<Rightarrow> Inr (DoWriteMemoryControl decls sz offset value bus, [])
     | MEMCTRL2 \<Rightarrow> Inr (DoWriteMemoryControl2 sz offset value bus, [])
     | PAD \<Rightarrow> Inr (bus, DoWritePad sz offset value)
     | SIO \<Rightarrow> Inr (bus, DoWriteSIO sz offset value)
     | INTC \<Rightarrow> Inr (bus, DoWriteInterruptController sz offset value)
     | DMA \<Rightarrow> Inr (bus, DoWriteDMA sz offset value)
     | TIMERS \<Rightarrow> Inr (bus, DoWriteTimers sz offset value)
     | CDROM \<Rightarrow> map_sum id (Pair bus) (DoWriteCDROM sz offset value)
     | GPU \<Rightarrow> map_sum id (Pair bus) (DoWriteGPU sz offset value)
     | MDEC \<Rightarrow> map_sum id (Pair bus) (DoWriteMDEC sz offset value)
     | SPU \<Rightarrow> map_sum id (Pair bus) (DoWriteSPU sz offset value))"

definition DispatchAccess ::
  "BusDecls \<Rightarrow> (Region \<Rightarrow> u32 \<Rightarrow> u32) \<Rightarrow>
   MemoryAccessType \<Rightarrow> MemoryAccessSize \<Rightarrow> u32 \<Rightarrow> u32 \<Rightarrow> Bus \<Rightarrow> error + Access" where
  "DispatchAccess decls collab type sz address value bus =
    (case decode_address address of
       None \<Rightarrow>
         (let r = DoInvalidAccess type sz address value
          in Inr \<lparr>acc_result = False, acc_ticks = fst r, acc_value = snd r, acc_bus = bus,
                  acc_requests = []\<rparr>)
     | Some (region, offset) \<Rightarrow>
         (case type of
            Read \<Rightarrow>
              (case DispatchRead collab region sz offset bus of
                 Inl e \<Rightarrow> Inl e
               | Inr r \<Rightarrow>
                   Inr \<lparr>acc_result = True, acc_ticks = region_ticks region sz bus,
                        acc_value = fst r, acc_bus = bus, acc_requests = snd r\<rparr>)
          | Write \<Rightarrow>
              (case DispatchWrite decls region sz offset value bus of
                 Inl e \<Rightarrow> Inl e
               | Inr r \<Rightarrow>
                   Inr \<lparr>acc_result = True, acc_ticks = region_ticks region sz bus,
                        acc_value = value, acc_bus = fst r, acc_requests = snd r\<rparr>)))"

text \<open>
  The six entry points of bus.cpp, lines 83-119, with the access type each one passes to
  \<open>DispatchAccess\<close>. They return the result flag, a read the value as well, and the bus
  after the access.
\<close>

definition ReadByte ::
  "BusDecls \<Rightarrow> (Region \<Rightarrow> u32 \<Rightarrow> u32) \<Rightarrow> u32 \<Rightarrow> Bus \<Rightarrow> error + bool \<times> u8 \<times> Bus" where
  "ReadByte decls collab address bus =
    (let temp = 0 in
     case DispatchAccess decls collab Read Byte address temp bus of
       Inl e \<Rightarrow> Inl e
     | Inr r \<Rightarrow> Inr (acc_result r, Truncate8 (acc_value r), acc_bus r))"

definition ReadHalfWord ::
  "BusDecls \<Rightarrow> (Region \<Rightarrow> u32 \<Rightarrow> u32) \<Rightarrow> u32 \<Rightarrow> Bus \<Rightarrow> error + bool \<times> u16 \<times> Bus" where
  "ReadHalfWord decls collab address bus =
    (let temp = 0 in
     case DispatchAccess decls collab Read HalfWord address temp bus of
       Inl e \<Rightarrow> Inl e
     | Inr r \<Rightarrow> Inr (acc_result r, Truncate16 (acc_value r), acc_bus r))"

definition ReadWord ::
  "BusDecls \<Rightarrow> (Region \<Rightarrow> u32 \<Rightarrow> u32) \<Rightarrow> u32 \<Rightarrow> u32 \<Rightarrow> Bus \<Rightarrow> error + bool \<times> u32 \<times> Bus" where
  "ReadWord decls collab address value bus =
    (case DispatchAccess decls collab Read Word address value bus of
       Inl e \<Rightarrow> Inl e
     | Inr r \<Rightarrow> Inr (acc_result r, acc_value r, acc_bus r))"

definition WriteByte ::
  "BusDecls \<Rightarrow> (Region \<Rightarrow> u32 \<Rightarrow> u32) \<Rightarrow> u32 \<Rightarrow> u8 \<Rightarrow> Bus \<Rightarrow> error + bool \<times> Bus" where
  "WriteByte decls collab address value bus =
    (let temp = ZeroExtend32_8 value in
     case DispatchAccess decls collab Read Byte address temp bus of
       Inl e \<Rightarrow> Inl e
     | Inr r \<Rightarrow> Inr (acc_result r, acc_bus r))"

definition WriteHalfWord ::
  "BusDecls \<Rightarrow> (Region \<Rightarrow> u32 \<Rightarrow> u32) \<Rightarrow> u32 \<Rightarrow> u16 \<Rightarrow> Bus \<Rightarrow> error + bool \<times> Bus" where
  "WriteHalfWord decls collab address value bus =
    (let temp = ZeroExtend32_16 value in
     case DispatchAccess decls collab Read HalfWord address temp bus of
       Inl e \<Rightarrow> Inl e
     | Inr r \<Rightarrow> Inr (acc_result r, acc_bus r))"

definition WriteWord ::
  "BusDecls \<Rightarrow> (Region \<Rightarrow> u32 \<Rightarrow> u32) \<Rightarrow> u32 \<Rightarrow> u32 \<Rightarrow> Bus \<Rightarrow> error + bool \<times> Bus" where
  "WriteWord decls collab address value bus =
    (case DispatchAccess decls collab Write Word address value bus of
       Inl e \<Rightarrow> Inl e
     | Inr r \<Rightarrow> Inr (acc_result r, acc_bus r))"

section \<open>Notions used in the statements\<close>

text \<open>
  The two conditions of \<open>AddTicks\<close> on the element before the call: the advanced counter
  reaches the target from below it, and the advanced counter is at or above \<open>0xFFFF\<close>.
\<close>

definition hit_target :: "CounterState \<Rightarrow> TickCount \<Rightarrow> bool" where
  "hit_target cs n \<longleftrightarrow> target cs \<le> counter cs + word_of_int n \<and> counter cs < target cs"

definition hit_overflow :: "CounterState \<Rightarrow> TickCount \<Rightarrow> bool" where
  "hit_overflow cs n \<longleftrightarrow> 0xFFFF \<le> counter cs + word_of_int n"

text \<open>
  An interrupt request reaches the interrupt controller: one of the conditions holds, the
  request line goes low (always in pulse mode, only from high in toggle mode), and the
  one-shot latch lets it through.
\<close>

definition irq_fires :: "CounterState \<Rightarrow> TickCount \<Rightarrow> bool" where
  "irq_fires cs n \<longleftrightarrow>
    (hit_target cs n \<or> hit_overflow cs n) \<and>
    (if irq_pulse_n (mode cs) then interrupt_request_n (mode cs) else True) \<and>
    (irq_repeat (mode cs) \<or> \<not> irq_done cs)"

definition ticked_mode :: "CounterState \<Rightarrow> TickCount \<Rightarrow> u32" where
  "ticked_mode cs n =
    (let m = mode cs;
         m = (if hit_target cs n then set_reached_target True m else m);
         m = (if hit_overflow cs n then set_reached_overflow True m else m)
     in if hit_target cs n \<or> hit_overflow cs n
        then set_interrupt_request_n
               (if irq_pulse_n (mode cs) then \<not> interrupt_request_n (mode cs) else True) m
        else m)"

definition ticked_counter :: "CounterState \<Rightarrow> TickCount \<Rightarrow> u32" where
  "ticked_counter cs n =
    (if reset_at_target (mode cs)
     then (if 0 < target cs then (counter cs + word_of_int n) mod target cs else 0)
     else (counter cs + word_of_int n) mod 0xFFFF)"

text \<open>The element of a timer after \<open>AddTicks\<close> with \<open>n\<close> ticks.\<close>

definition ticked :: "CounterState \<Rightarrow> TickCount \<Rightarrow> CounterState" where
  "ticked cs n =
    cs\<lparr>mode := ticked_mode cs n, counter := ticked_counter cs n,
       irq_done := irq_done cs \<or> irq_fires cs n\<rparr>"

text \<open>
  The ticks that \<open>Execute(n)\<close> gives to timer \<open>t\<close>, if any: timers 0 and 1 get \<open>n\<close> when
  they count on sysclk; timer 2 gets the eighth, with the carry, on its external clock and
  \<open>n\<close> otherwise when it counts.
\<close>

definition timer_ticks :: "nat \<Rightarrow> TickCount \<Rightarrow> Timers \<Rightarrow> TickCount option" where
  "timer_ticks t n s =
    (let cs = m_states s t in
     if t < 2 then (if \<not> external_counting_enabled cs \<and> counting_enabled cs then Some n else None)
     else if external_counting_enabled cs then Some ((n + m_sysclk_div_8_carry s) sdiv 8)
     else if counting_enabled cs then Some n else None)"


text \<open>The number of requests that timer \<open>t\<close> has sent to the interrupt controller.\<close>

definition irq_count :: "nat \<Rightarrow> Timers \<Rightarrow> nat" where
  "irq_count t s = count_list (irq_requests s) t"


text \<open>The port of register \<open>port\<close> of timer \<open>t\<close>: the timers are \<open>0x10\<close> apart.\<close>

definition timer_port :: "nat \<Rightarrow> u32 \<Rightarrow> u32" where
  "timer_port t port = push_bit 4 (word_of_nat t) + port"


section \<open>States and parameters for the worked examples\<close>

definition timers_zero :: Timers where
  "timers_zero =
    \<lparr>m_states = (\<lambda>i. \<lparr>mode = 0, counter = 0, target = 0, gate = False,
                       use_external_clock = False, external_counting_enabled = False,
                       counting_enabled = False, irq_done = False\<rparr>),
     m_sysclk_div_8_carry = 0, irq_requests = [], downcount = 0\<rparr>"

text \<open>No ticks are pending when a register is accessed: \<open>Synchronize\<close> changes nothing.\<close>

definition no_pending :: "Timers \<Rightarrow> Timers" where
  "no_pending s = s"

text \<open>
  Timer 0 after reset, mode \<open>0x58\<close> (reset at target, IRQ at target, repeat) and target 100.
\<close>

definition timer0_target_100 :: Timers where
  "timer0_target_100 =
    WriteRegister no_pending 0x08 100 (WriteRegister no_pending 0x04 0x58 (Reset timers_zero))"

text \<open>
  Timer 2 after reset, mode \<open>0x200\<close> (clock source 2: sysclk/8) and target 10; and the
  same with mode \<open>0x600\<close>, which also writes the request line high.
\<close>

definition timer2_div8 :: Timers where
  "timer2_div8 =
    WriteRegister no_pending 0x28 10 (WriteRegister no_pending 0x24 0x200 (Reset timers_zero))"

definition timer2_div8_high :: Timers where
  "timer2_div8_high =
    WriteRegister no_pending 0x28 10 (WriteRegister no_pending 0x24 0x600 (Reset timers_zero))"

text \<open>
  Timer 1 after reset, mode \<open>0x58\<close> and target 100, after 100 ticks: its \<open>reached_target\<close>
  is set.
\<close>

definition timer1_reached :: Timers where
  "timer1_reached =
    Execute 100
      (WriteRegister no_pending 0x18 100 (WriteRegister no_pending 0x14 0x58 (Reset timers_zero)))"

text \<open>
  A bus with every cell, register and table entry 0 and no expansion ROM; declarations with the write
  masks \<open>0xAF1FFFFF\<close> and \<open>0x0003FFFF\<close> and the fields of a delay register at bits 4-7
  (access time) and 8-12 (the five flags), those of the common delay register in its four
  low nibbles; and collaborators that read as 0.
\<close>

definition bus_zero :: Bus where
  "bus_zero =
    \<lparr>m_exp1_access_time = (0, 0, 0), m_exp2_access_time = (0, 0, 0),
     m_bios_access_time = (0, 0, 0), m_cdrom_access_time = (0, 0, 0),
     m_spu_access_time = (0, 0, 0),
     m_ram = (\<lambda>i. 0), m_bios = (\<lambda>i. 0), m_exp1_rom = [], m_MEMCTRL = (\<lambda>i. 0),
     m_ram_size_reg = 0, m_tty_line_buffer = []\<rparr>"

definition example_decls :: BusDecls where
  "example_decls =
    \<lparr>MEMDELAY_WRITE_MASK = 0xAF1FFFFF, COMDELAY_WRITE_MASK = 0x0003FFFF,
     MEMDELAY_fields =
       (\<lambda>w. \<lparr>access_time = ucast (drop_bit 4 w), use_com0_time = bit w 8,
               use_com1_time = bit w 9, use_com2_time = bit w 10, use_com3_time = bit w 11,
               data_bus_16bit = bit w 12\<rparr>),
     COMDELAY_fields =
       (\<lambda>w. \<lparr>com0 = ucast w, com1 = ucast (drop_bit 4 w),
               com2 = ucast (drop_bit 8 w), com3 = ucast (drop_bit 12 w)\<rparr>)\<rparr>"

definition no_collaborators :: "Region \<Rightarrow> u32 \<Rightarrow> u32" where
  "no_collaborators region offset = 0"

section \<open>Memory timing: theorems\<close>

text \<open>
  C8. \<open>CalculateMemoryTiming\<close> returns exactly the triple of the specification's recipe:
  byte = first, halfword = first or first + seq, word = first + seq or first + 3 seq, with
  first and seq built from the com0/com2/com3 selections, the increment below 6, the
  access time plus 2, and the clamps to min + 6 and min + 2.
\<close>

theorem CalculateMemoryTiming_refines_spec:
  "CalculateMemoryTiming mem_delay common_delay = spec_memory_timing mem_delay common_delay"
  unfolding CalculateMemoryTiming_def spec_memory_timing_def s32_def Let_def
  by (cases "use_com0_time mem_delay"; cases "use_com2_time mem_delay";
      cases "use_com3_time mem_delay"; cases "data_bus_16bit mem_delay")
     (simp_all add: max_def)

section \<open>Timers: lemmas\<close>

subsection \<open>Mode word\<close>

lemma bit_assign_bit:
  "bit (assign_bit n b m) k \<longleftrightarrow> (if k = n then b \<and> n < 32 else bit m k)"
  by (auto simp add: assign_bit_def bit_set_bit_iff bit_unset_bit_iff dest: bit_imp_le_length)

lemma assign_bit_twice:
  "assign_bit n b (assign_bit n b' m) = assign_bit n b m"
  by (rule bit_eqI) (simp add: bit_assign_bit)

lemmas mode_field_defs =
  sync_enable_def reset_at_target_def irq_at_target_def irq_on_overflow_def irq_repeat_def
  irq_pulse_n_def interrupt_request_n_def reached_target_def reached_overflow_def

lemmas mode_setter_defs =
  set_sync_enable_def set_interrupt_request_n_def set_reached_target_def set_reached_overflow_def

subsection \<open>The blocks of AddTicks\<close>

lemma modify_state_simps:
  "m_states (modify_state i f s) = (m_states s)(i := f (m_states s i))"
  "irq_requests (modify_state i f s) = irq_requests s"
  "m_sysclk_div_8_carry (modify_state i f s) = m_sysclk_div_8_carry s"
  "downcount (modify_state i f s) = downcount s"
  by (simp_all add: modify_state_def)

lemma UpdateIRQ_simps:
  "m_states (UpdateIRQ i s) j =
     (if j = i then (m_states s i)\<lparr>irq_done := irq_done (m_states s i) \<or>
         \<not> (interrupt_request_n (mode (m_states s i)) \<or> \<not> irq_repeat (mode (m_states s i)) \<and> irq_done (m_states s i))\<rparr>
      else m_states s j)"
  "irq_requests (UpdateIRQ i s) = irq_requests s @
     (if interrupt_request_n (mode (m_states s i)) \<or> \<not> irq_repeat (mode (m_states s i)) \<and> irq_done (m_states s i)
      then [] else [i])"
  "m_sysclk_div_8_carry (UpdateIRQ i s) = m_sysclk_div_8_carry s"
  "downcount (UpdateIRQ i s) = downcount s"
  by (auto simp add: UpdateIRQ_def Let_def)

lemma AddTicks_advance_fst:
  "fst (AddTicks_advance n cs) \<longleftrightarrow> hit_target cs n \<or> hit_overflow cs n"
  by (auto simp add: AddTicks_advance_def Let_def hit_target_def hit_overflow_def)

lemma AddTicks_advance_snd:
  "snd (AddTicks_advance n cs) =
     cs\<lparr>counter := counter cs + word_of_int n,
        mode := (let m = mode cs;
                     m = (if hit_target cs n then set_reached_target True m else m)
                 in if hit_overflow cs n then set_reached_overflow True m else m)\<rparr>"
  by (auto simp add: AddTicks_advance_def Let_def hit_target_def hit_overflow_def)

lemma AddTicks_request_simps:
  "m_states (AddTicks_request t s) j =
     (if j = t then (m_states s t)
        \<lparr>mode := set_interrupt_request_n
                   (if irq_pulse_n (mode (m_states s t)) then \<not> interrupt_request_n (mode (m_states s t)) else True)
                   (mode (m_states s t)),
         irq_done := irq_done (m_states s t) \<or>
           ((if irq_pulse_n (mode (m_states s t)) then interrupt_request_n (mode (m_states s t)) else True) \<and>
            (irq_repeat (mode (m_states s t)) \<or> \<not> irq_done (m_states s t)))\<rparr>
      else m_states s j)"
  "irq_requests (AddTicks_request t s) = irq_requests s @
     (if (if irq_pulse_n (mode (m_states s t)) then interrupt_request_n (mode (m_states s t)) else True) \<and>
         (irq_repeat (mode (m_states s t)) \<or> \<not> irq_done (m_states s t))
      then [t] else [])"
  "m_sysclk_div_8_carry (AddTicks_request t s) = m_sysclk_div_8_carry s"
  "downcount (AddTicks_request t s) = downcount s"
  by (auto simp add: AddTicks_request_def Let_def modify_state_simps UpdateIRQ_simps
        mode_field_defs mode_setter_defs bit_assign_bit assign_bit_twice)

subsection \<open>AddTicks, field by field\<close>

lemma AddTicks_other:
  "i \<noteq> t \<Longrightarrow> m_states (AddTicks t n s) i = m_states s i"
  by (simp add: AddTicks_def Let_def modify_state_simps AddTicks_request_simps)

lemma AddTicks_carry:
  "m_sysclk_div_8_carry (AddTicks t n s) = m_sysclk_div_8_carry s"
  "downcount (AddTicks t n s) = downcount s"
  by (simp_all add: AddTicks_def Let_def modify_state_simps AddTicks_request_simps)

lemma AddTicks_irq_requests:
  "irq_requests (AddTicks t n s) = irq_requests s @ (if irq_fires (m_states s t) n then [t] else [])"
  by (simp add: AddTicks_def Let_def modify_state_simps AddTicks_request_simps
        AddTicks_advance_fst AddTicks_advance_snd irq_fires_def
        mode_field_defs mode_setter_defs bit_assign_bit)

lemma AddTicks_frame:
  "target (m_states (AddTicks t n s) t) = target (m_states s t)"
  "gate (m_states (AddTicks t n s) t) = gate (m_states s t)"
  "use_external_clock (m_states (AddTicks t n s) t) = use_external_clock (m_states s t)"
  "external_counting_enabled (m_states (AddTicks t n s) t) = external_counting_enabled (m_states s t)"
  "counting_enabled (m_states (AddTicks t n s) t) = counting_enabled (m_states s t)"
  by (simp_all add: AddTicks_def Let_def modify_state_simps AddTicks_request_simps
        AddTicks_advance_snd AddTicks_wrap_def)

lemma AddTicks_mode:
  "mode (m_states (AddTicks t n s) t) = ticked_mode (m_states s t) n"
  by (simp add: AddTicks_def Let_def modify_state_simps AddTicks_request_simps
        AddTicks_advance_fst AddTicks_advance_snd AddTicks_wrap_def ticked_mode_def
        mode_field_defs mode_setter_defs bit_assign_bit)

lemma AddTicks_irq_done:
  "irq_done (m_states (AddTicks t n s) t) \<longleftrightarrow> irq_done (m_states s t) \<or> irq_fires (m_states s t) n"
  by (simp add: AddTicks_def Let_def modify_state_simps AddTicks_request_simps
        AddTicks_advance_fst AddTicks_advance_snd AddTicks_wrap_def irq_fires_def
        mode_field_defs mode_setter_defs bit_assign_bit)

lemma AddTicks_counter:
  "counter (m_states (AddTicks t n s) t) = ticked_counter (m_states s t) n"
  by (simp add: AddTicks_def Let_def modify_state_simps AddTicks_request_simps
        AddTicks_advance_fst AddTicks_advance_snd AddTicks_wrap_def ticked_counter_def
        mode_field_defs mode_setter_defs bit_assign_bit)

lemma bit_ticked_mode:
  "bit (ticked_mode cs n) k \<longleftrightarrow>
    (if k = 11 then bit (mode cs) 11 \<or> hit_target cs n
     else if k = 12 then bit (mode cs) 12 \<or> hit_overflow cs n
     else if k = 10 \<and> (hit_target cs n \<or> hit_overflow cs n)
       then (if irq_pulse_n (mode cs) then \<not> bit (mode cs) 10 else True)
     else bit (mode cs) k)"
  by (simp add: ticked_mode_def Let_def mode_field_defs mode_setter_defs bit_assign_bit)

subsection \<open>Advancing without wrap-around of the 32-bit addition\<close>

lemma uint_advance:
  fixes c :: u32
  assumes "0 \<le> n" and "uint c + n < 2 ^ 32"
  shows "uint (c + word_of_int n) = uint c + n"
proof -
  have "n < 2 ^ 32" using assms uint_ge_0 [of c] by linarith
  then have n: "uint (word_of_int n :: u32) = n"
    using assms(1) by (simp add: uint_word_of_int)
  have "uint c + uint (word_of_int n :: u32) < 2 ^ LENGTH(32)"
    using assms(2) n by simp
  then have "uint (c + word_of_int n) = uint c + uint (word_of_int n :: u32)"
    by (rule uint_add_lem [THEN iffD1])
  then show ?thesis using n by simp
qed

subsection \<open>The counter stays a 16-bit value\<close>

lemma ticked_counter_le:
  assumes "target cs \<le> 0xFFFF"
  shows "ticked_counter cs n \<le> 0xFFFF"
proof -
  have a: "(counter cs + word_of_int n) mod 0xFFFF < 0xFFFF"
    by (rule word_mod_less_divisor) simp
  have b: "0 < target cs \<Longrightarrow> (counter cs + word_of_int n) mod target cs < target cs"
    by (rule word_mod_less_divisor)
  show ?thesis
    using a b assms by (auto simp add: ticked_counter_def)
qed

lemma AddTicks_counter_le:
  "target (m_states s t) \<le> 0xFFFF \<Longrightarrow> counter (m_states (AddTicks t n s) t) \<le> 0xFFFF"
  by (simp add: AddTicks_counter ticked_counter_le)

subsection \<open>The element after AddTicks, and Execute\<close>

lemma AddTicks_same:
  "m_states (AddTicks t n s) t = ticked (m_states s t) n"
  by (rule CounterState.equality)
     (simp_all add: ticked_def AddTicks_mode AddTicks_counter AddTicks_irq_done AddTicks_frame)

lemma AddTicks_m_states:
  "m_states (AddTicks t n s) = (m_states s)(t := ticked (m_states s t) n)"
  by (rule ext) (simp add: AddTicks_same AddTicks_other)

lemma UpdateDowncount_simps:
  "m_states (UpdateDowncount s) = m_states s"
  "irq_requests (UpdateDowncount s) = irq_requests s"
  "m_sysclk_div_8_carry (UpdateDowncount s) = m_sysclk_div_8_carry s"
  by (simp_all add: UpdateDowncount_def)

lemmas Execute_unfold =
  Execute_def Let_def UpdateDowncount_simps AddTicks_m_states AddTicks_carry
  AddTicks_irq_requests timer_ticks_def

lemma Execute_m_states:
  assumes "t < NUM_TIMERS"
  shows "m_states (Execute n s) t =
    (case timer_ticks t n s of None \<Rightarrow> m_states s t | Some k \<Rightarrow> ticked (m_states s t) k)"
proof -
  have 0: "m_states (Execute n s) 0 =
    (case timer_ticks 0 n s of None \<Rightarrow> m_states s 0 | Some k \<Rightarrow> ticked (m_states s 0) k)"
    by (simp add: Execute_unfold)
  have 1: "m_states (Execute n s) 1 =
    (case timer_ticks 1 n s of None \<Rightarrow> m_states s 1 | Some k \<Rightarrow> ticked (m_states s 1) k)"
    by (simp add: Execute_unfold)
  have 2: "m_states (Execute n s) 2 =
    (case timer_ticks 2 n s of None \<Rightarrow> m_states s 2 | Some k \<Rightarrow> ticked (m_states s 2) k)"
    by (simp add: Execute_unfold)
  from assms have "t = 0 \<or> t = 1 \<or> t = 2" by (auto simp add: NUM_TIMERS_def)
  with 0 1 2 show ?thesis by blast
qed

lemma Execute_carry:
  "m_sysclk_div_8_carry (Execute n s) =
    (if external_counting_enabled (m_states s 2) then (n + m_sysclk_div_8_carry s) smod 8
     else m_sysclk_div_8_carry s)"
  by (simp add: Execute_unfold)

lemma Execute_irq_count:
  assumes "t < NUM_TIMERS"
  shows "irq_count t (Execute n s) = irq_count t s +
    (case timer_ticks t n s of None \<Rightarrow> 0 | Some k \<Rightarrow> if irq_fires (m_states s t) k then 1 else 0)"
proof -
  have 0: "irq_count 0 (Execute n s) = irq_count 0 s +
    (case timer_ticks 0 n s of None \<Rightarrow> 0 | Some k \<Rightarrow> if irq_fires (m_states s 0) k then 1 else 0)"
    by (simp add: Execute_unfold irq_count_def)
  have 1: "irq_count 1 (Execute n s) = irq_count 1 s +
    (case timer_ticks 1 n s of None \<Rightarrow> 0 | Some k \<Rightarrow> if irq_fires (m_states s 1) k then 1 else 0)"
    by (simp add: Execute_unfold irq_count_def)
  have 2: "irq_count 2 (Execute n s) = irq_count 2 s +
    (case timer_ticks 2 n s of None \<Rightarrow> 0 | Some k \<Rightarrow> if irq_fires (m_states s 2) k then 1 else 0)"
    by (simp add: Execute_unfold irq_count_def)
  from assms have "t = 0 \<or> t = 1 \<or> t = 2" by (auto simp add: NUM_TIMERS_def)
  with 0 1 2 show ?thesis by blast
qed


subsection \<open>Division of tick counts\<close>

lemma sdiv8_nonneg: "0 \<le> a \<Longrightarrow> (a::int) sdiv 8 = a div 8"
  by (simp add: signed_divide_int_def sgn_if)

lemma smod8_nonneg: "0 \<le> a \<Longrightarrow> (a::int) smod 8 = a mod 8"
  by (simp add: signed_modulo_int_def sgn_if)

lemma ticked_simps:
  "mode (ticked cs n) = ticked_mode cs n"
  "counter (ticked cs n) = ticked_counter cs n"
  "irq_done (ticked cs n) = (irq_done cs \<or> irq_fires cs n)"
  "target (ticked cs n) = target cs"
  "gate (ticked cs n) = gate cs"
  "use_external_clock (ticked cs n) = use_external_clock cs"
  "external_counting_enabled (ticked cs n) = external_counting_enabled cs"
  "counting_enabled (ticked cs n) = counting_enabled cs"
  by (simp_all add: ticked_def)

subsection \<open>Register ports\<close>

lemma timer_port_decode:
  assumes "t < NUM_TIMERS"
  shows "timer_index_of (timer_port t 0x04) = t" and "port_offset_of (timer_port t 0x04) = 0x04"
proof -
  from assms have "t = 0 \<or> t = 1 \<or> t = 2" by (auto simp add: NUM_TIMERS_def)
  then show "timer_index_of (timer_port t 0x04) = t" and "port_offset_of (timer_port t 0x04) = 0x04"
    by (auto simp add: timer_port_def timer_index_of_def port_offset_of_def)
qed

lemma UpdateCountingEnabled_simps:
  "mode (UpdateCountingEnabled cs) = mode cs"
  "counter (UpdateCountingEnabled cs) = counter cs"
  "target (UpdateCountingEnabled cs) = target cs"
  "gate (UpdateCountingEnabled cs) = gate cs"
  "use_external_clock (UpdateCountingEnabled cs) = use_external_clock cs"
  "irq_done (UpdateCountingEnabled cs) = irq_done cs"
  by (simp_all add: UpdateCountingEnabled_def Let_def split: SyncMode.split)

subsection \<open>Runs of Execute on a timer that counts to its target\<close>






section \<open>Timers: AddTicks\<close>

text \<open>
  C2. After \<open>AddTicks(t, n)\<close> the counter is \<open>(old_counter + n) mod target\<close> when
  \<open>reset_at_target\<close> is set and the target is positive, 0 when it is set and the target is
  0, and \<open>(old_counter + n) mod 0xFFFF\<close> otherwise: the modulus is 65535, not 65536.
  The first half states this in the 32-bit arithmetic of the source, for every \<open>n\<close>; the
  second half states it of the values as integers, for a tick count \<open>n\<close> that is not
  negative and does not make the 32-bit addition wrap, which it cannot for a counter of at
  most 16 bits and a \<open>TickCount\<close>.
\<close>

theorem AddTicks_counter_modulo:
  assumes "t < NUM_TIMERS"
  shows "counter (m_states (AddTicks t n s) t) =
      (if reset_at_target (mode (m_states s t))
       then (if 0 < target (m_states s t)
             then (counter (m_states s t) + word_of_int n) mod target (m_states s t)
             else 0)
       else (counter (m_states s t) + word_of_int n) mod 0xFFFF) \<and>
    (0 \<le> n \<and> uint (counter (m_states s t)) + n < 2 ^ 32 \<longrightarrow>
      uint (counter (m_states (AddTicks t n s) t)) =
      (if reset_at_target (mode (m_states s t))
       then (if 0 < uint (target (m_states s t))
             then (uint (counter (m_states s t)) + n) mod uint (target (m_states s t))
             else 0)
       else (uint (counter (m_states s t)) + n) mod 65535))"
proof (intro conjI impI)
  show "counter (m_states (AddTicks t n s) t) =
      (if reset_at_target (mode (m_states s t))
       then (if 0 < target (m_states s t)
             then (counter (m_states s t) + word_of_int n) mod target (m_states s t)
             else 0)
       else (counter (m_states s t) + word_of_int n) mod 0xFFFF)"
    by (simp add: AddTicks_counter ticked_counter_def)
next
  assume a: "0 \<le> n \<and> uint (counter (m_states s t)) + n < 2 ^ 32"
  then have adv: "uint (counter (m_states s t) + word_of_int n) = uint (counter (m_states s t)) + n"
    by (simp add: uint_advance)
  have pos: "0 < target (m_states s t) \<longleftrightarrow> 0 < uint (target (m_states s t))"
    by (simp add: word_less_def)
  show "uint (counter (m_states (AddTicks t n s) t)) =
      (if reset_at_target (mode (m_states s t))
       then (if 0 < uint (target (m_states s t))
             then (uint (counter (m_states s t)) + n) mod uint (target (m_states s t))
             else 0)
       else (uint (counter (m_states s t)) + n) mod 65535)"
    by (simp add: AddTicks_counter ticked_counter_def uint_mod adv pos)
qed

text \<open>
  An instance: timer 1 after reset (mode 0, target 0) and 65536 ticks; the counter is 1,
  where masking to 16 bits would give 0.
\<close>

theorem AddTicks_counter_modulo_witness:
  "(1::nat) < NUM_TIMERS \<and> (0::int) \<le> 65536 \<and>
   uint (counter (m_states timer0_target_100 1)) + 65536 < 2 ^ 32 \<and>
   \<not> reset_at_target (mode (m_states timer0_target_100 1)) \<and>
   uint (counter (m_states timer0_target_100 1)) = 0 \<and>
   uint (counter (m_states (AddTicks 1 65536 timer0_target_100) 1)) = 1"
proof -
  have h1: "(1::nat) < NUM_TIMERS" by (simp add: NUM_TIMERS_def)
  have h2: "(0::int) \<le> 65536" by simp
  have c: "uint (counter (m_states timer0_target_100 1)) = 0" by code_simp
  have h3: "uint (counter (m_states timer0_target_100 1)) + 65536 < 2 ^ 32" by code_simp
  have m: "\<not> reset_at_target (mode (m_states timer0_target_100 1))" by code_simp
  from AddTicks_counter_modulo [OF h1, of 65536 timer0_target_100] h2 h3
  have "uint (counter (m_states (AddTicks 1 65536 timer0_target_100) 1)) =
      (if reset_at_target (mode (m_states timer0_target_100 1))
       then (if 0 < uint (target (m_states timer0_target_100 1))
             then (uint (counter (m_states timer0_target_100 1)) + 65536) mod
                  uint (target (m_states timer0_target_100 1))
             else 0)
       else (uint (counter (m_states timer0_target_100 1)) + 65536) mod 65535)"
    by blast
  then show ?thesis
    using h1 h3 m c by simp
qed

text \<open>
  C10. With the target register 0, \<open>AddTicks\<close> leaves \<open>reached_target\<close> as it was for
  every tick count; a request is sent to the interrupt controller only if the advanced
  counter is at or above \<open>0xFFFF\<close>, and when it is below, the mode word, \<open>irq_done\<close> and
  the requests are unchanged.
\<close>

theorem AddTicks_target_zero:
  assumes "t < NUM_TIMERS" and "target (m_states s t) = 0"
  shows "reached_target (mode (m_states (AddTicks t n s) t)) = reached_target (mode (m_states s t)) \<and>
    (irq_requests (AddTicks t n s) \<noteq> irq_requests s \<longrightarrow>
       0xFFFF \<le> counter (m_states s t) + word_of_int n) \<and>
    (\<not> 0xFFFF \<le> counter (m_states s t) + word_of_int n \<longrightarrow>
       mode (m_states (AddTicks t n s) t) = mode (m_states s t) \<and>
       irq_done (m_states (AddTicks t n s) t) = irq_done (m_states s t) \<and>
       irq_requests (AddTicks t n s) = irq_requests s)"
proof -
  have no_hit: "\<not> hit_target (m_states s t) n"
    using assms(2) by (simp add: hit_target_def)
  have ovf: "hit_overflow (m_states s t) n \<longleftrightarrow> 0xFFFF \<le> counter (m_states s t) + word_of_int n"
    by (simp add: hit_overflow_def)
  have a: "reached_target (mode (m_states (AddTicks t n s) t)) = reached_target (mode (m_states s t))"
    using no_hit by (simp add: AddTicks_mode reached_target_def bit_ticked_mode)
  have b: "irq_requests (AddTicks t n s) \<noteq> irq_requests s \<longrightarrow>
       0xFFFF \<le> counter (m_states s t) + word_of_int n"
    using no_hit by (simp add: AddTicks_irq_requests irq_fires_def ovf)
  have c: "\<not> 0xFFFF \<le> counter (m_states s t) + word_of_int n \<longrightarrow>
       mode (m_states (AddTicks t n s) t) = mode (m_states s t) \<and>
       irq_done (m_states (AddTicks t n s) t) = irq_done (m_states s t) \<and>
       irq_requests (AddTicks t n s) = irq_requests s"
    using no_hit
    by (simp add: AddTicks_mode AddTicks_irq_done AddTicks_irq_requests irq_fires_def ovf
          ticked_mode_def)
  from a b c show ?thesis by blast
qed

text \<open>
  An instance: timer 1 after reset. 70000 ticks reach the overflow condition and send a
  request, without \<open>reached_target\<close>; 5 ticks send none.
\<close>

theorem AddTicks_target_zero_witness:
  "(1::nat) < NUM_TIMERS \<and> target (m_states timer0_target_100 1) = 0 \<and>
   \<not> reached_target (mode (m_states (AddTicks 1 70000 timer0_target_100) 1)) \<and>
   irq_requests (AddTicks 1 70000 timer0_target_100) \<noteq> irq_requests timer0_target_100 \<and>
   (0xFFFF :: u32) \<le> counter (m_states timer0_target_100 1) + word_of_int 70000 \<and>
   \<not> (0xFFFF :: u32) \<le> counter (m_states timer0_target_100 1) + word_of_int 5 \<and>
   irq_requests (AddTicks 1 5 timer0_target_100) = irq_requests timer0_target_100"
proof -
  have h1: "(1::nat) < NUM_TIMERS" by (simp add: NUM_TIMERS_def)
  have h2: "target (m_states timer0_target_100 1) = 0" by code_simp
  have r: "\<not> reached_target (mode (m_states timer0_target_100 1))" by code_simp
  have q: "irq_requests (AddTicks 1 70000 timer0_target_100) \<noteq> irq_requests timer0_target_100" by code_simp
  have o: "\<not> (0xFFFF :: u32) \<le> counter (m_states timer0_target_100 1) + word_of_int 5" by code_simp
  show ?thesis
    using AddTicks_target_zero [OF h1 h2, of 70000] AddTicks_target_zero [OF h1 h2, of 5] h1 h2 r q o
    by simp
qed

section \<open>Timers: register ports\<close>

text \<open>
  C5, amended. The timers are \<open>0x10\<close> apart, not \<open>0x08\<close>. Reading the mode port of timer
  \<open>t\<close>, at \<open>0x10 * t + 0x04\<close>, returns \<open>mode.bits\<close> as they are when the read takes place
  (after the synchronisation that the read starts with), and the state after the read is
  that state with bits 11 and 12 of this timer's mode word, \<open>reached_target\<close> and
  \<open>reached_overflow\<close>, cleared: every other mode bit, the counter, the target, \<open>irq_done\<close>
  and everything else are unchanged.
\<close>

theorem ReadRegister_mode:
  assumes "t < NUM_TIMERS"
  shows "fst (ReadRegister Synchronize (timer_port t 0x04) s) = mode (m_states (Synchronize s) t) \<and>
    (\<exists>m'. snd (ReadRegister Synchronize (timer_port t 0x04) s) =
            (Synchronize s)\<lparr>m_states := (m_states (Synchronize s))
                               (t := (m_states (Synchronize s) t)\<lparr>mode := m'\<rparr>)\<rparr> \<and>
          \<not> reached_target m' \<and> \<not> reached_overflow m' \<and>
          (\<forall>k. bit m' k \<longleftrightarrow> bit (mode (m_states (Synchronize s) t)) k \<and> k \<noteq> 11 \<and> k \<noteq> 12))"
proof -
  let ?s = "Synchronize s"
  let ?m = "set_reached_target False (set_reached_overflow False (mode (m_states ?s t)))"
  have r: "ReadRegister Synchronize (timer_port t 0x04) s =
      (mode (m_states ?s t), ?s\<lparr>m_states := (m_states ?s)(t := (m_states ?s t)\<lparr>mode := ?m\<rparr>)\<rparr>)"
    by (simp add: ReadRegister_def timer_port_decode [OF assms] Let_def modify_state_def)
  have b: "\<forall>k. bit ?m k \<longleftrightarrow> bit (mode (m_states ?s t)) k \<and> k \<noteq> 11 \<and> k \<noteq> 12"
    by (simp add: mode_setter_defs bit_assign_bit)
  have c: "\<not> reached_target ?m \<and> \<not> reached_overflow ?m"
    by (simp add: mode_field_defs mode_setter_defs bit_assign_bit)
  show ?thesis
    unfolding r using b c by auto
qed

text \<open>
  An instance: timer 1 has reached its target; the read returns \<open>0xC58\<close> and clears the
  flag, and the counter is unchanged.
\<close>

theorem ReadRegister_mode_witness:
  "(1::nat) < NUM_TIMERS \<and>
   fst (ReadRegister no_pending (timer_port 1 0x04) timer1_reached) = 0xC58 \<and>
   reached_target (mode (m_states (no_pending timer1_reached) 1)) \<and>
   mode (m_states (snd (ReadRegister no_pending (timer_port 1 0x04) timer1_reached)) 1) = 0x458"
proof -
  have h: "(1::nat) < NUM_TIMERS" by (simp add: NUM_TIMERS_def)
  have m: "mode (m_states (no_pending timer1_reached) 1) = 0xC58" by code_simp
  have r: "reached_target (mode (m_states (no_pending timer1_reached) 1))" by code_simp
  have a: "mode (m_states (snd (ReadRegister no_pending (timer_port 1 0x04) timer1_reached)) 1) = 0x458"
    by code_simp
  show ?thesis
    using ReadRegister_mode [OF h, of no_pending timer1_reached] h m r a by simp
qed

text \<open>
  C5 as stated fails: with a stride of \<open>0x08\<close> the mode port of timer 1 would be
  \<open>0x08 * 1 + 0x04\<close>. A read there is a read of no register: it returns \<open>0xFFFFFFFF\<close>, not
  the mode word \<open>0xC58\<close> of timer 1, and \<open>reached_target\<close> of timer 1 stays set.
\<close>

theorem ReadRegister_stride_8_counterexample:
  "fst (ReadRegister no_pending (8 * 1 + 0x04) timer1_reached) = 0xFFFFFFFF \<and>
   mode (m_states timer1_reached 1) = 0xC58 \<and>
   reached_target (mode (m_states (snd (ReadRegister no_pending (8 * 1 + 0x04) timer1_reached)) 1))"
  by code_simp

text \<open>
  C4, amended. Writing \<open>v\<close> to the mode port of timer \<open>t\<close> stores \<open>v & 0x1FFF\<close>, with
  \<open>interrupt_request_n\<close> forced to 1 when the stored \<open>irq_pulse_n\<close> is set; recomputes
  \<open>use_external_clock\<close> as \<open>(clock_source & (t == 2 ? 2 : 1)) != 0\<close>; and sets the counter
  to 0. \<open>irq_done\<close> is cleared and then \<open>UpdateIRQ\<close> runs: when the stored word has both
  \<open>irq_pulse_n\<close> and \<open>interrupt_request_n\<close> clear, the timer's interrupt is requested
  at once and \<open>irq_done\<close> is set again; otherwise no request is made and \<open>irq_done\<close> is
  clear after the write.
\<close>

theorem WriteRegister_mode:
  assumes "t < NUM_TIMERS"
  shows "(let s' = WriteRegister Synchronize (timer_port t 0x04) v s;
              m = v AND 0x1FFF
          in mode (m_states s' t) = (if irq_pulse_n m then set_interrupt_request_n True m else m) \<and>
             use_external_clock (m_states s' t) = (clock_source m AND (if t = 2 then 2 else 1) \<noteq> 0) \<and>
             counter (m_states s' t) = 0 \<and>
             irq_done (m_states s' t) = (\<not> irq_pulse_n m \<and> \<not> interrupt_request_n m) \<and>
             irq_requests s' = irq_requests (Synchronize s) @
               (if \<not> irq_pulse_n m \<and> \<not> interrupt_request_n m then [t] else []))"
  by (simp add: WriteRegister_def timer_port_decode [OF assms] Let_def modify_state_simps
        UpdateIRQ_simps UpdateCountingEnabled_simps mode_field_defs mode_setter_defs bit_assign_bit)

text \<open>
  An instance: timer 2 with \<open>irq_done\<close> set; \<open>0xFFFFE280\<close> is stored as \<open>0x680\<close>
  (\<open>irq_pulse_n\<close> set, so bit 10 is forced), the external clock is selected, and
  \<open>irq_done\<close> is clear after the write.
\<close>

theorem WriteRegister_mode_witness:
  "(2::nat) < NUM_TIMERS \<and>
   mode (m_states (WriteRegister no_pending (timer_port 2 0x04) 0xFFFFE280 timer2_div8) 2) = 0x680 \<and>
   use_external_clock (m_states (WriteRegister no_pending (timer_port 2 0x04) 0xFFFFE280 timer2_div8) 2) \<and>
   counter (m_states (WriteRegister no_pending (timer_port 2 0x04) 0xFFFFE280 timer2_div8) 2) = 0 \<and>
   \<not> irq_done (m_states (WriteRegister no_pending (timer_port 2 0x04) 0xFFFFE280 timer2_div8) 2) \<and>
   irq_done (m_states (no_pending timer2_div8) 2)"
proof -
  have h: "(2::nat) < NUM_TIMERS" by (simp add: NUM_TIMERS_def)
  have d: "irq_done (m_states (no_pending timer2_div8) 2)" by code_simp
  have p: "irq_pulse_n (0xFFFFE280 AND 0x1FFF)" by code_simp
  have m: "set_interrupt_request_n True (0xFFFFE280 AND 0x1FFF) = 0x680" by code_simp
  have c: "clock_source (0xFFFFE280 AND 0x1FFF) AND 2 \<noteq> 0" by code_simp
  show ?thesis
    using WriteRegister_mode [OF h, of no_pending "0xFFFFE280" timer2_div8] h d p m c
    by (simp add: Let_def)
qed

text \<open>
  C4 as stated fails: after reset, writing 0 to the mode port of timer 0 stores 0 and
  resets the counter, but \<open>irq_done\<close> is set after the write, and the interrupt of
  timer 0 has been requested.
\<close>

theorem WriteRegister_mode_irq_done_counterexample:
  "mode (m_states (WriteRegister no_pending 0x04 0 (Reset timers_zero)) 0) = 0 AND 0x1FFF \<and>
   counter (m_states (WriteRegister no_pending 0x04 0 (Reset timers_zero)) 0) = 0 \<and>
   irq_done (m_states (WriteRegister no_pending 0x04 0 (Reset timers_zero)) 0) \<and>
   irq_requests (WriteRegister no_pending 0x04 0 (Reset timers_zero)) = [0]"
  by code_simp

section \<open>Timers: Execute\<close>

text \<open>
  C6, amended. With the external clock of timer 2 counting, \<open>Execute(n)\<close> for a tick count
  \<open>n\<close> gives timer 2 \<open>(n + carry) / 8\<close> ticks and keeps \<open>(n + carry) % 8\<close> as the new
  carry. With target 10, counter 0 and carry 0, \<open>Execute(79)\<close> leaves the counter at 9 and
  the carry at 7; a following \<open>Execute(1)\<close> leaves the carry at 0 and the counter at 10
  when \<open>reset_at_target\<close> is clear (at 0 when it is set), and requests the interrupt of
  timer 2 exactly when the request line can go low (\<open>irq_pulse_n\<close> clear, or
  \<open>interrupt_request_n\<close> high) and the one-shot latch is open (\<open>irq_repeat\<close> set, or
  \<open>irq_done\<close> clear).
\<close>

theorem Execute_timer2_div8:
  assumes ext: "external_counting_enabled (m_states s 2)"
  shows "(0 \<le> n \<and> 0 \<le> m_sysclk_div_8_carry s \<longrightarrow>
            m_sysclk_div_8_carry (Execute n s) = (n + m_sysclk_div_8_carry s) mod 8 \<and>
            m_states (Execute n s) 2 =
              m_states (AddTicks 2 ((n + m_sysclk_div_8_carry s) div 8) s) 2) \<and>
         (target (m_states s 2) = 10 \<and> counter (m_states s 2) = 0 \<and> m_sysclk_div_8_carry s = 0 \<longrightarrow>
            counter (m_states (Execute 79 s) 2) = 9 \<and>
            m_sysclk_div_8_carry (Execute 79 s) = 7 \<and>
            counter (m_states (Execute 1 (Execute 79 s)) 2) =
              (if reset_at_target (mode (m_states s 2)) then 0 else 10) \<and>
            m_sysclk_div_8_carry (Execute 1 (Execute 79 s)) = 0 \<and>
            irq_count 2 (Execute 1 (Execute 79 s)) = irq_count 2 (Execute 79 s) +
              (if (irq_pulse_n (mode (m_states s 2)) \<longrightarrow> interrupt_request_n (mode (m_states s 2))) \<and>
                  (irq_repeat (mode (m_states s 2)) \<or> \<not> irq_done (m_states s 2))
               then 1 else 0))"
proof (intro conjI impI)
  assume a: "0 \<le> n \<and> 0 \<le> m_sysclk_div_8_carry s"
  then have nn: "0 \<le> n + m_sysclk_div_8_carry s" by simp
  show "m_sysclk_div_8_carry (Execute n s) = (n + m_sysclk_div_8_carry s) mod 8"
    using ext by (simp add: Execute_carry smod8_nonneg [OF nn])
  show "m_states (Execute n s) 2 = m_states (AddTicks 2 ((n + m_sysclk_div_8_carry s) div 8) s) 2"
    using ext by (simp add: Execute_m_states NUM_TIMERS_def timer_ticks_def AddTicks_same
          sdiv8_nonneg [OF nn])
next
  assume b: "target (m_states s 2) = 10 \<and> counter (m_states s 2) = 0 \<and> m_sysclk_div_8_carry s = 0"
  let ?cs = "m_states s 2"
  let ?s1 = "Execute 79 s"
  have t1: "timer_ticks 2 79 s = Some 9"
    using ext b by (simp add: timer_ticks_def signed_divide_int_def)
  have nh1: "\<not> hit_target ?cs 9" "\<not> hit_overflow ?cs 9"
    using b by (simp_all add: hit_target_def hit_overflow_def)
  have cs1: "m_states ?s1 2 = ?cs\<lparr>counter := 9\<rparr>"
    using b nh1
    by (simp add: Execute_m_states NUM_TIMERS_def t1 ticked_def ticked_mode_def ticked_counter_def
          irq_fires_def)
  have c1: "m_sysclk_div_8_carry ?s1 = 7"
    using ext b by (simp add: Execute_carry signed_modulo_int_def)
  show "counter (m_states ?s1 2) = 9" by (simp add: cs1)
  show "m_sysclk_div_8_carry ?s1 = 7" by (rule c1)
  have t2: "timer_ticks 2 1 ?s1 = Some 1"
    using ext by (simp add: timer_ticks_def cs1 c1 signed_divide_int_def)
  have h2: "hit_target (m_states ?s1 2) 1" "\<not> hit_overflow (m_states ?s1 2) 1"
    using b by (simp_all add: cs1 hit_target_def hit_overflow_def)
  show "counter (m_states (Execute 1 ?s1) 2) = (if reset_at_target (mode ?cs) then 0 else 10)"
    using b by (simp add: Execute_m_states NUM_TIMERS_def t2 ticked_simps ticked_counter_def cs1)
  have "m_sysclk_div_8_carry (Execute 1 ?s1) = (1 + m_sysclk_div_8_carry ?s1) smod 8"
    using ext by (simp only: Execute_carry [of 1 ?s1] cs1) simp
  then show "m_sysclk_div_8_carry (Execute 1 ?s1) = 0"
    by (simp only: c1) (simp add: signed_modulo_int_def)
  show "irq_count 2 (Execute 1 ?s1) = irq_count 2 ?s1 +
      (if (irq_pulse_n (mode ?cs) \<longrightarrow> interrupt_request_n (mode ?cs)) \<and>
          (irq_repeat (mode ?cs) \<or> \<not> irq_done ?cs)
       then 1 else 0)"
    using h2 by (simp add: Execute_irq_count NUM_TIMERS_def t2 irq_fires_def) (simp add: cs1)
qed

text \<open>
  An instance: timer 2 after reset with mode \<open>0x600\<close> and target 10. \<open>Execute(100)\<close>
  leaves the carry 4; \<open>Execute(79)\<close> then \<open>Execute(1)\<close> end at counter 10, carry 0, with one
  request more.
\<close>

theorem Execute_timer2_div8_witness:
  "external_counting_enabled (m_states timer2_div8_high 2) \<and>
   m_sysclk_div_8_carry (Execute 100 timer2_div8_high) = 4 \<and>
   target (m_states timer2_div8_high 2) = 10 \<and> counter (m_states timer2_div8_high 2) = 0 \<and>
   m_sysclk_div_8_carry timer2_div8_high = 0 \<and>
   counter (m_states (Execute 79 timer2_div8_high) 2) = 9 \<and>
   m_sysclk_div_8_carry (Execute 79 timer2_div8_high) = 7 \<and>
   counter (m_states (Execute 1 (Execute 79 timer2_div8_high)) 2) = 10 \<and>
   m_sysclk_div_8_carry (Execute 1 (Execute 79 timer2_div8_high)) = 0 \<and>
   irq_count 2 (Execute 1 (Execute 79 timer2_div8_high)) = irq_count 2 (Execute 79 timer2_div8_high) + 1"
proof -
  have e: "external_counting_enabled (m_states timer2_div8_high 2)" by code_simp
  have t: "target (m_states timer2_div8_high 2) = 10" by code_simp
  have c: "counter (m_states timer2_div8_high 2) = 0" by code_simp
  have k: "m_sysclk_div_8_carry timer2_div8_high = 0" by code_simp
  have m: "mode (m_states timer2_div8_high 2) = 0x600" by code_simp
  have d: "\<not> irq_done (m_states timer2_div8_high 2)" by code_simp
  have f: "\<not> reset_at_target 0x600" "\<not> irq_pulse_n 0x600" by (simp_all add: mode_field_defs)
  show ?thesis
    using Execute_timer2_div8 [OF e, of 100] e t c k m d f by simp
qed

text \<open>
  C6 as stated fails: timer 2 after reset with mode \<open>0x200\<close> (only the clock source set)
  and target 10 has its external clock counting, counter 0 and carry 0; \<open>Execute(79)\<close> and
  \<open>Execute(1)\<close> leave the counter and the carry as stated, but \<open>Execute(1)\<close> requests no
  interrupt: the mode write has requested one already, which set \<open>irq_done\<close>, and
  \<open>irq_repeat\<close> is clear.
\<close>

theorem Execute_timer2_no_irq_counterexample:
  "external_counting_enabled (m_states timer2_div8 2) \<and>
   counting_enabled (m_states timer2_div8 2) \<and>
   target (m_states timer2_div8 2) = 10 \<and> counter (m_states timer2_div8 2) = 0 \<and>
   m_sysclk_div_8_carry timer2_div8 = 0 \<and>
   counter (m_states (Execute 79 timer2_div8) 2) = 9 \<and>
   m_sysclk_div_8_carry (Execute 79 timer2_div8) = 7 \<and>
   counter (m_states (Execute 1 (Execute 79 timer2_div8)) 2) = 10 \<and>
   m_sysclk_div_8_carry (Execute 1 (Execute 79 timer2_div8)) = 0 \<and>
   irq_requests (Execute 1 (Execute 79 timer2_div8)) = irq_requests (Execute 79 timer2_div8)"
  by code_simp




section \<open>Bus: memory control registers, invalid accesses, writes\<close>

lemma RecalculateMemoryTimings_regs:
  "m_MEMCTRL (RecalculateMemoryTimings decls bus) = m_MEMCTRL bus"
  by (simp add: RecalculateMemoryTimings_def)

lemma decode_address_RAM:
  "address AND 0x1FFFFFFF < 0x800000 \<Longrightarrow>
   decode_address address = Some (RAM, (address AND 0x1FFFFFFF) AND 0x001FFFFF)"
  by (simp add: decode_address_def Let_def)

text \<open>
  C7. For every MEMCTRL register index \<open>i\<close> and word \<open>v\<close>, an aligned word write of \<open>v\<close>
  to register \<open>i\<close> followed by an aligned word read of it returns
  \<open>(old & ~write_mask) | (v & write_mask)\<close>, where the mask is \<open>COMDELAY::WRITE_MASK\<close> for
  register 8 and \<open>MEMDELAY::WRITE_MASK\<close> for the other eight, whatever the two masks are.
\<close>

theorem MEMCTRL_write_then_read:
  assumes "i < MEMCTRL_REG_COUNT"
  shows "DoReadMemoryControl Word (word_of_nat (4 * i))
           (DoWriteMemoryControl decls Word (word_of_nat (4 * i)) v bus) =
         (m_MEMCTRL bus i AND NOT (if i = 8 then COMDELAY_WRITE_MASK decls else MEMDELAY_WRITE_MASK decls))
           OR (v AND (if i = 8 then COMDELAY_WRITE_MASK decls else MEMDELAY_WRITE_MASK decls))"
proof -
  from assms have "i \<in> {0, 1, 2, 3, 4, 5, 6, 7, 8}"
    by (auto simp add: MEMCTRL_REG_COUNT_def)
  then show ?thesis
    by (elim insertE emptyE;
        simp add: DoReadMemoryControl_def DoWriteMemoryControl_def
          FixupUnalignedWordAccessW32_def Let_def RecalculateMemoryTimings_regs)
qed

text \<open>
  An instance: all ones written to the common delay register of a zeroed bus read back as
  the mask \<open>0x0003FFFF\<close>.
\<close>

theorem MEMCTRL_write_then_read_witness:
  "(8::nat) < MEMCTRL_REG_COUNT \<and>
   DoReadMemoryControl Word 0x20 (DoWriteMemoryControl example_decls Word 0x20 0xFFFFFFFF bus_zero) = 0x0003FFFF"
proof -
  have h: "(8::nat) < MEMCTRL_REG_COUNT" by (simp add: MEMCTRL_REG_COUNT_def)
  have r: "m_MEMCTRL bus_zero 8 = 0" by (simp add: bus_zero_def)
  have m: "COMDELAY_WRITE_MASK example_decls = 0x0003FFFF" by (simp add: example_decls_def)
  show ?thesis
    using MEMCTRL_write_then_read [OF h, of example_decls "0xFFFFFFFF" bus_zero] h r m by simp
qed

text \<open>
  An access aborts exactly where a handler's \<open>Assert\<close> fails: a CDROM access that is not a
  byte, a GPU or MDEC access that is not a word, an SPU write at an odd offset.
\<close>

lemma DispatchAccess_aborts:
  "isl (DispatchAccess decls collab type sz address value bus) \<longleftrightarrow>
    (case decode_address address of
       None \<Rightarrow> False
     | Some (region, offset) \<Rightarrow>
         (region = CDROM \<and> sz \<noteq> Byte) \<or>
         (region = GPU \<and> sz \<noteq> Word) \<or>
         (region = MDEC \<and> sz \<noteq> Word) \<or>
         (region = SPU \<and> type = Write \<and> \<not> IsAlignedPow2 offset 2))"
proof (cases "decode_address address")
  case None
  then show ?thesis by (simp add: DispatchAccess_def Let_def)
next
  case (Some ro)
  obtain region offset where ro: "ro = (region, offset)" by (cases ro)
  show ?thesis
    unfolding DispatchAccess_def Some ro
    by (cases type; cases region)
      (simp_all add: DispatchRead_def DispatchWrite_def DoReadCDROM_def DoWriteCDROM_def
        DoReadGPU_def DoWriteGPU_def DoReadMDEC_def DoWriteMDEC_def DoWriteSPU_def
        split: sum.splits)
qed

lemma DispatchAccess_CDROM_HalfWord_aborts:
  "DispatchAccess example_decls no_collaborators Read HalfWord 0x1F801800 0 bus_zero =
     Inl AssertionFailed"
proof -
  have d: "decode_address 0x1F801800 = Some (CDROM, 0)"
    by (simp add: decode_address_def in_region_def Let_def)
  show ?thesis
    by (simp add: d DispatchAccess_def DispatchRead_def DoReadCDROM_def)
qed




text \<open>
  \<open>WriteWord\<close> passes \<open>MemoryAccessType::Write\<close>: the word it writes to RAM is the word
  read back.
\<close>

lemma load_store_word:
  "load_le (store_le mem ofs 4 v) ofs 4 = v"
proof -
  have u: "[0..<4] = [0, 1, 2, 3]" by (simp add: upt_rec)
  show ?thesis
    unfolding load_le_def store_le_def u
    apply (rule bit_word_eqI)
    apply (auto simp add: bit_simps)
    subgoal for n by (cases "16 \<le> n") simp_all
    subgoal for n by (cases "16 \<le> n"; cases "24 \<le> n") simp_all
    done
qed

lemma WriteWord_stores:
  assumes "address AND 0x1FFFFFFF < 0x800000"
  shows "(case WriteWord decls collab address v bus of
            Inl e \<Rightarrow> Inl e
          | Inr r \<Rightarrow> ReadWord decls collab address w (snd r)) =
         Inr (True, v,
              bus\<lparr>m_ram := store_le (m_ram bus)
                    (unat ((address AND 0x1FFFFFFF) AND 0x001FFFFF)) 4 v\<rparr>)"
  by (simp add: ReadWord_def WriteWord_def DispatchAccess_def DispatchRead_def
        DispatchWrite_def decode_address_RAM [OF assms] DoRAMAccess_def region_ticks_def
        transfer_size_def load_store_word)

text \<open>
  C1. The source does not do what the specification asks of it: \<open>WriteByte\<close> and \<open>WriteHalfWord\<close>
  pass \<open>MemoryAccessType::Read\<close> to \<open>DispatchAccess\<close>. For every address that folds into
  RAM they succeed and return the bus unchanged, and \<open>ReadByte\<close> after \<open>WriteByte\<close> gives
  the byte that was there before: nothing is stored.
\<close>

theorem WriteByte_WriteHalfWord_read:
  assumes "address AND 0x1FFFFFFF < 0x800000"
  shows "WriteByte decls collab address b bus = Inr (True, bus) \<and>
         WriteHalfWord decls collab address h bus = Inr (True, bus) \<and>
         (case WriteByte decls collab address b bus of
            Inl e \<Rightarrow> Inl e
          | Inr r \<Rightarrow> ReadByte decls collab address (snd r)) =
           Inr (True, m_ram bus (unat ((address AND 0x1FFFFFFF) AND 0x001FFFFF)), bus)"
  by (simp add: WriteByte_def WriteHalfWord_def ReadByte_def DispatchAccess_def
        DispatchRead_def decode_address_RAM [OF assms] DoRAMAccess_def region_ticks_def Let_def
        transfer_size_def load_le_def Truncate8_def ucast_up_ucast_id is_up)

text \<open>
  An instance: after \<open>WriteByte(0x1000, 0xAB)\<close> on a zeroed bus, the bus is unchanged and
  \<open>ReadByte(0x1000)\<close> gives 0.
\<close>

theorem WriteByte_WriteHalfWord_read_witness:
  "(0x1000 :: u32) AND 0x1FFFFFFF < 0x800000 \<and>
   WriteByte example_decls no_collaborators 0x1000 0xAB bus_zero = Inr (True, bus_zero) \<and>
   (case WriteByte example_decls no_collaborators 0x1000 0xAB bus_zero of
      Inl e \<Rightarrow> Inl e
    | Inr r \<Rightarrow> ReadByte example_decls no_collaborators 0x1000 (snd r)) =
     Inr (True, 0, bus_zero)"
proof -
  have h: "(0x1000 :: u32) AND 0x1FFFFFFF < 0x800000" by simp
  have z: "m_ram bus_zero (unat (((0x1000 :: u32) AND 0x1FFFFFFF) AND 0x001FFFFF)) = 0"
    by (simp add: bus_zero_def)
  show ?thesis
    using WriteByte_WriteHalfWord_read
      [OF h, where decls = example_decls and collab = no_collaborators and b = "0xAB"
        and h = 0 and bus = bus_zero] h z
    by (elim conjE) simp
qed

end
